theory Spec2Isabelle
  imports Complex_Main
begin

section \<open>Neural style transfer: the loss modules, the assembler and the optimisation loop\<close>

text \<open>
  A shallow embedding of \<^verbatim>\<open>transfer/style_transfer.py\<close>. The functions the file
  defines itself (\<^verbatim>\<open>ContentLoss\<close>, \<^verbatim>\<open>gram_matrix\<close>, \<^verbatim>\<open>StyleLoss\<close>,
  \<^verbatim>\<open>Normalization\<close>, \<^verbatim>\<open>get_style_model_and_losses\<close>, \<^verbatim>\<open>run_style_transfer\<close>
  and its closure) are translated statement by statement. The numeric library underneath
  is handled in two ways: the operations a property depends on (\<^verbatim>\<open>clamp_\<close>,
  \<^verbatim>\<open>view\<close>, \<^verbatim>\<open>t\<close>, \<^verbatim>\<open>mm\<close>, \<^verbatim>\<open>div\<close>, the module container) are defined
  here; the ones whose values are only passed along (the layers of the pretrained network,
  \<^verbatim>\<open>mse_loss\<close>, broadcasting subtraction and division, the optimiser's search) are
  parameters.
\<close>

subsection \<open>Floating-point values\<close>

text \<open>
  A tensor entry is a finite number, an infinity or NaN. Finite values are exact reals:
  rounding, overflow and the sign of zero are not modelled. The special values follow
  IEEE 754: NaN is absorbing; infinity minus infinity and zero times infinity are NaN.
\<close>

datatype fl = Fin real | PInf | NInf | NaN

fun fadd :: "fl \<Rightarrow> fl \<Rightarrow> fl" where
  "fadd NaN _ = NaN"
| "fadd _ NaN = NaN"
| "fadd (Fin x) (Fin y) = Fin (x + y)"
| "fadd PInf NInf = NaN"
| "fadd NInf PInf = NaN"
| "fadd PInf _ = PInf"
| "fadd _ PInf = PInf"
| "fadd NInf _ = NInf"
| "fadd _ NInf = NInf"

fun fneg :: "fl \<Rightarrow> fl" where
  "fneg (Fin x) = Fin (- x)"
| "fneg PInf = NInf"
| "fneg NInf = PInf"
| "fneg NaN = NaN"

fun fmul :: "fl \<Rightarrow> fl \<Rightarrow> fl" where
  "fmul NaN _ = NaN"
| "fmul _ NaN = NaN"
| "fmul (Fin x) (Fin y) = Fin (x * y)"
| "fmul (Fin x) PInf = (if x = 0 then NaN else if 0 < x then PInf else NInf)"
| "fmul (Fin x) NInf = (if x = 0 then NaN else if 0 < x then NInf else PInf)"
| "fmul PInf (Fin y) = (if y = 0 then NaN else if 0 < y then PInf else NInf)"
| "fmul NInf (Fin y) = (if y = 0 then NaN else if 0 < y then NInf else PInf)"
| "fmul PInf PInf = PInf"
| "fmul PInf NInf = NInf"
| "fmul NInf PInf = NInf"
| "fmul NInf NInf = PInf"

text \<open>Division of an entry by an element count (a non-negative Python integer).\<close>

fun fdiv_count :: "fl \<Rightarrow> nat \<Rightarrow> fl" where
  "fdiv_count (Fin x) n =
     (if n = 0 then (if x = 0 then NaN else if 0 < x then PInf else NInf)
      else Fin (x / real n))"
| "fdiv_count PInf n = PInf"
| "fdiv_count NInf n = NInf"
| "fdiv_count NaN n = NaN"



instantiation fl :: comm_monoid_add
begin

definition zero_fl :: fl where "zero_fl = Fin 0"

definition plus_fl :: "fl \<Rightarrow> fl \<Rightarrow> fl" where "plus_fl x y = fadd x y"

instance
proof
  fix a b c :: fl
  show "a + b + c = a + (b + c)"
    unfolding plus_fl_def by (cases a; cases b; cases c) simp_all
  show "a + b = b + a"
    unfolding plus_fl_def by (cases a; cases b) simp_all
  show "0 + a = a"
    unfolding plus_fl_def zero_fl_def by (cases a) simp_all
qed

end

subsection \<open>Tensors\<close>

text \<open>
  A contiguous tensor: its size and its entries in row-major order. A tensor of the
  library always has as many entries as its size says (\<open>wf_tensor\<close>).
\<close>

record tensor =
  shape :: "nat list"
  data :: "fl list"



datatype error =
    RuntimeError string
  | ValueError string
  | AttributeError string

text \<open>\<^verbatim>\<open>x.view(r, c)\<close> reinterprets the entries as an \<open>r \<times> c\<close> matrix.\<close>

definition view2 :: "tensor \<Rightarrow> nat \<Rightarrow> nat \<Rightarrow> error + tensor" where
  "view2 x r c =
     (if length (data x) = r * c then Inr \<lparr>shape = [r, c], data = data x\<rparr>
      else Inl (RuntimeError ''shape is invalid for input size''))"

text \<open>Entry \<open>(i, j)\<close> of a matrix with \<open>c\<close> columns.\<close>

definition at2 :: "fl list \<Rightarrow> nat \<Rightarrow> nat \<Rightarrow> nat \<Rightarrow> fl" where
  "at2 xs c i j = xs ! (i * c + j)"

definition rows :: "nat \<Rightarrow> nat \<Rightarrow> (nat \<Rightarrow> nat \<Rightarrow> fl) \<Rightarrow> fl list" where
  "rows r c f = concat (map (\<lambda>i. map (\<lambda>j. f i j) [0..<c]) [0..<r])"

text \<open>\<^verbatim>\<open>m.t()\<close>: the transpose of a matrix.\<close>

definition tensor_t :: "tensor \<Rightarrow> error + tensor" where
  "tensor_t m =
     (case shape m of
        [r, c] \<Rightarrow> Inr \<lparr>shape = [c, r], data = rows c r (\<lambda>j i. at2 (data m) c i j)\<rparr>
      | _ \<Rightarrow> Inl (RuntimeError ''t() expects a 2D tensor''))"

text \<open>\<^verbatim>\<open>torch.mm(A, B)\<close>: the matrix product.\<close>

definition mm :: "tensor \<Rightarrow> tensor \<Rightarrow> error + tensor" where
  "mm A B =
     (case (shape A, shape B) of
        ([n, k], [k', m]) \<Rightarrow>
          if k = k' then
            Inr \<lparr>shape = [n, m],
                 data = rows n m (\<lambda>i j.
                   sum_list (map (\<lambda>l. fmul (at2 (data A) k i l) (at2 (data B) m l j)) [0..<k]))\<rparr>
          else Inl (RuntimeError ''mat1 and mat2 shapes cannot be multiplied'')
      | _ \<Rightarrow> Inl (RuntimeError ''mm expects 2D tensors''))"

text \<open>\<^verbatim>\<open>G.div(n)\<close> for a Python integer \<open>n\<close>.\<close>

definition div_count :: "tensor \<Rightarrow> nat \<Rightarrow> tensor" where
  "div_count G n = G\<lparr>data := map (\<lambda>x. fdiv_count x n) (data G)\<rparr>"

subsection \<open>The Gram matrix\<close>

text \<open>
  \<^verbatim>\<open>a, b, c, d = input.size()\<close> raises a ValueError unless the input has four dimensions.
\<close>

definition gram_matrix :: "tensor \<Rightarrow> error + tensor" where
  "gram_matrix input =
     (case shape input of
        [a, b, c, d] \<Rightarrow>
          (case view2 input (a * b) (c * d) of
             Inl e \<Rightarrow> Inl e
           | Inr features \<Rightarrow>
               (case tensor_t features of
                  Inl e \<Rightarrow> Inl e
                | Inr ft \<Rightarrow>
                    (case mm features ft of
                       Inl e \<Rightarrow> Inl e
                     | Inr G \<Rightarrow> Inr (div_count G (a * b * c * d)))))
      | _ \<Rightarrow> Inl (ValueError ''wrong number of values to unpack (expected 4)''))"



subsection \<open>Modules\<close>

text \<open>
  The module classes that occur. \<open>Conv2d\<close> and \<open>BatchNorm2d\<close> carry a handle of their
  frozen parameters, \<open>ReLU\<close> its \<^verbatim>\<open>inplace\<close> flag, \<open>MaxPool2d\<close> its kernel size,
  stride and padding, \<open>AvgPool2d\<close> these and \<^verbatim>\<open>ceil_mode\<close>. \<open>ContentLoss\<close> and
  \<open>StyleLoss\<close> modules are mutable objects shared between the pipeline and the loss lists:
  the constructor argument is the position of the object in a store of loss modules.
  \<open>Other\<close> is a module of any other class, with the class name.
\<close>

datatype module =
    Conv2d nat
  | ReLU bool
  | MaxPool2d nat nat nat
  | AvgPool2d nat nat nat bool
  | BatchNorm2d nat
  | Normalization tensor tensor
  | ContentLoss nat
  | StyleLoss nat
  | Other string

fun class_name :: "module \<Rightarrow> string" where
  "class_name (Conv2d _) = ''Conv2d''"
| "class_name (ReLU _) = ''ReLU''"
| "class_name (MaxPool2d _ _ _) = ''MaxPool2d''"
| "class_name (AvgPool2d _ _ _ _) = ''AvgPool2d''"
| "class_name (BatchNorm2d _) = ''BatchNorm2d''"
| "class_name (Normalization _ _) = ''Normalization''"
| "class_name (ContentLoss _) = ''ContentLoss''"
| "class_name (StyleLoss _) = ''StyleLoss''"
| "class_name (Other c) = c"

text \<open>
  The state of a \<^verbatim>\<open>ContentLoss\<close> or \<^verbatim>\<open>StyleLoss\<close> object: the target fixed by the
  constructor and the attribute \<^verbatim>\<open>loss\<close>, absent until the first forward pass.
\<close>

record loss_module =
  target :: tensor
  loss :: "fl option"

text \<open>
  The part of the numeric library that is a parameter: the forward pass of the layers of
  the pretrained network, \<^verbatim>\<open>F.mse_loss\<close>, the broadcasting \<^verbatim>\<open>-\<close> and \<^verbatim>\<open>/\<close> on
  tensors, and \<^verbatim>\<open>save_image\<close>. Each may raise.
\<close>

record backend =
  layer_forward :: "module \<Rightarrow> tensor \<Rightarrow> error + tensor"
  mse_loss :: "tensor \<Rightarrow> tensor \<Rightarrow> error + fl"
  tensor_sub :: "tensor \<Rightarrow> tensor \<Rightarrow> error + tensor"
  tensor_div :: "tensor \<Rightarrow> tensor \<Rightarrow> error + tensor"
  save_image :: "tensor \<Rightarrow> string \<Rightarrow> error + unit"

subsubsection \<open>ContentLoss\<close>

definition ContentLoss_init :: "tensor \<Rightarrow> loss_module" where
  "ContentLoss_init tgt = \<lparr>target = tgt, loss = None\<rparr>"

definition ContentLoss_forward :: "backend \<Rightarrow> loss_module \<Rightarrow> tensor \<Rightarrow> error + tensor \<times> loss_module" where
  "ContentLoss_forward B self input =
     (case mse_loss B input (target self) of
        Inl e \<Rightarrow> Inl e
      | Inr l \<Rightarrow> Inr (input, self\<lparr>loss := Some l\<rparr>))"

subsubsection \<open>StyleLoss\<close>

definition StyleLoss_init :: "tensor \<Rightarrow> error + loss_module" where
  "StyleLoss_init target_feature =
     (case gram_matrix target_feature of
        Inl e \<Rightarrow> Inl e
      | Inr G \<Rightarrow> Inr \<lparr>target = G, loss = None\<rparr>)"

definition StyleLoss_forward :: "backend \<Rightarrow> loss_module \<Rightarrow> tensor \<Rightarrow> error + tensor \<times> loss_module" where
  "StyleLoss_forward B self input =
     (case gram_matrix input of
        Inl e \<Rightarrow> Inl e
      | Inr G \<Rightarrow>
          (case mse_loss B G (target self) of
             Inl e \<Rightarrow> Inl e
           | Inr l \<Rightarrow> Inr (input, self\<lparr>loss := Some l\<rparr>)))"

subsubsection \<open>Normalization\<close>

text \<open>\<^verbatim>\<open>torch.tensor(mean).view(-1, 1, 1)\<close>: the entries as a \<open>[C, 1, 1]\<close> tensor.\<close>

definition view_C11 :: "tensor \<Rightarrow> tensor" where
  "view_C11 x = \<lparr>shape = [length (data x), 1, 1], data = data x\<rparr>"

definition Normalization_init :: "tensor \<Rightarrow> tensor \<Rightarrow> module" where
  "Normalization_init mean std = Normalization (view_C11 mean) (view_C11 std)"

definition Normalization_forward :: "backend \<Rightarrow> tensor \<Rightarrow> tensor \<Rightarrow> tensor \<Rightarrow> error + tensor" where
  "Normalization_forward B mean std img =
     (case tensor_sub B img mean of
        Inl e \<Rightarrow> Inl e
      | Inr diff \<Rightarrow> tensor_div B diff std)"

subsection \<open>The module container\<close>

text \<open>
  \<^verbatim>\<open>nn.Sequential\<close> keeps its modules in an ordered dictionary. \<^verbatim>\<open>add_module\<close>
  stores under the name: a new name goes to the end, a name already present keeps its
  position and gets the new module.
\<close>

type_synonym sequential = "(string \<times> module) list"

fun add_module :: "string \<Rightarrow> module \<Rightarrow> sequential \<Rightarrow> sequential" where
  "add_module name m [] = [(name, m)]"
| "add_module name m ((k, v) # rest) =
     (if k = name then (name, m) # rest else (k, v) # add_module name m rest)"

text \<open>
  The forward pass of one module. The loss modules read and write their object in the
  store; a reference made by the assembler always points into the store.
\<close>

definition module_forward ::
  "backend \<Rightarrow> module \<Rightarrow> tensor \<Rightarrow> loss_module list \<Rightarrow> (error + tensor) \<times> loss_module list" where
  "module_forward B m x st =
     (case m of
        Normalization mean std \<Rightarrow> (Normalization_forward B mean std x, st)
      | ContentLoss r \<Rightarrow>
          (case ContentLoss_forward B (st ! r) x of
             Inl e \<Rightarrow> (Inl e, st)
           | Inr (y, self') \<Rightarrow> (Inr y, st[r := self']))
      | StyleLoss r \<Rightarrow>
          (case StyleLoss_forward B (st ! r) x of
             Inl e \<Rightarrow> (Inl e, st)
           | Inr (y, self') \<Rightarrow> (Inr y, st[r := self']))
      | _ \<Rightarrow> (layer_forward B m x, st))"

text \<open>Calling the container feeds the input through the modules in order.\<close>

fun Sequential_call ::
  "backend \<Rightarrow> sequential \<Rightarrow> tensor \<Rightarrow> loss_module list \<Rightarrow> (error + tensor) \<times> loss_module list" where
  "Sequential_call B [] x st = (Inr x, st)"
| "Sequential_call B ((name, m) # ms) x st =
     (case module_forward B m x st of
        (Inl e, st') \<Rightarrow> (Inl e, st')
      | (Inr y, st') \<Rightarrow> Sequential_call B ms y st')"

subsection \<open>Decimal formatting\<close>

definition digit_char :: "nat \<Rightarrow> char" where
  "digit_char n = ''0123456789'' ! n"

fun str_nat :: "nat \<Rightarrow> string" where
  "str_nat n = (if n < 10 then [digit_char n] else str_nat (n div 10) @ [digit_char (n mod 10)])"

declare str_nat.simps [simp del]


subsection \<open>The assembler\<close>

text \<open>
  What \<^verbatim>\<open>get_style_model_and_losses\<close> builds: the container, the two lists of loss
  modules (as references) and the store holding the objects.
\<close>

record assembly =
  model :: sequential
  style_losses :: "nat list"
  content_losses :: "nat list"
  store :: "loss_module list"

text \<open>
  The \<^verbatim>\<open>isinstance\<close> chain of the loop body: the new value of the counter \<open>i\<close>, the
  name and the module that is added.
\<close>

fun name_layer :: "nat \<Rightarrow> module \<Rightarrow> error + nat \<times> string \<times> module" where
  "name_layer i (Conv2d w) = Inr (i + 1, ''conv_'' @ str_nat (i + 1), Conv2d w)"
| "name_layer i (ReLU inplace) = Inr (i, ''relu_'' @ str_nat i, ReLU False)"
| "name_layer i (MaxPool2d k s p) = Inr (i, ''pool_'' @ str_nat i, AvgPool2d 2 2 0 False)"
| "name_layer i (BatchNorm2d w) = Inr (i, ''bn_'' @ str_nat i, BatchNorm2d w)"
| "name_layer i layer = Inl (RuntimeError (''Unrecognized layer: '' @ class_name layer))"

definition add_content_loss :: "backend \<Rightarrow> tensor \<Rightarrow> nat \<Rightarrow> assembly \<Rightarrow> error + assembly" where
  "add_content_loss B content_img i A =
     (case Sequential_call B (model A) content_img (store A) of
        (Inl e, st) \<Rightarrow> Inl e
      | (Inr tgt, st) \<Rightarrow>
          Inr (A\<lparr>model := add_module (''content_loss_'' @ str_nat i) (ContentLoss (length st)) (model A),
                 content_losses := content_losses A @ [length st],
                 store := st @ [ContentLoss_init tgt]\<rparr>))"

definition add_style_loss :: "backend \<Rightarrow> tensor \<Rightarrow> nat \<Rightarrow> assembly \<Rightarrow> error + assembly" where
  "add_style_loss B style_img i A =
     (case Sequential_call B (model A) style_img (store A) of
        (Inl e, st) \<Rightarrow> Inl e
      | (Inr target_feature, st) \<Rightarrow>
          (case StyleLoss_init target_feature of
             Inl e \<Rightarrow> Inl e
           | Inr style_loss \<Rightarrow>
               Inr (A\<lparr>model := add_module (''style_loss_'' @ str_nat i) (StyleLoss (length st)) (model A),
                      style_losses := style_losses A @ [length st],
                      store := st @ [style_loss]\<rparr>)))"

text \<open>The loop over \<^verbatim>\<open>cnn.children()\<close>; it returns the final counter \<open>i\<close> as well.\<close>

fun walk_layers ::
  "backend \<Rightarrow> tensor \<Rightarrow> tensor \<Rightarrow> string list \<Rightarrow> string list \<Rightarrow> module list \<Rightarrow> nat \<Rightarrow> assembly
    \<Rightarrow> error + nat \<times> assembly" where
  "walk_layers B style_img content_img content_layers style_layers [] i A = Inr (i, A)"
| "walk_layers B style_img content_img content_layers style_layers (layer # layers) i A =
     (case name_layer i layer of
        Inl e \<Rightarrow> Inl e
      | Inr (i', name, layer') \<Rightarrow>
          (case (if name \<in> set content_layers
                 then add_content_loss B content_img i' (A\<lparr>model := add_module name layer' (model A)\<rparr>)
                 else Inr (A\<lparr>model := add_module name layer' (model A)\<rparr>)) of
             Inl e \<Rightarrow> Inl e
           | Inr A' \<Rightarrow>
               (case (if name \<in> set style_layers
                      then add_style_loss B style_img i' A'
                      else Inr A') of
                  Inl e \<Rightarrow> Inl e
                | Inr A'' \<Rightarrow>
                    walk_layers B style_img content_img content_layers style_layers layers i' A'')))"

fun is_loss_module :: "module \<Rightarrow> bool" where
  "is_loss_module (ContentLoss _) = True"
| "is_loss_module (StyleLoss _) = True"
| "is_loss_module _ = False"

text \<open>
  The trimming loop \<^verbatim>\<open>for i in range(len(model) - 1, -1, -1)\<close>, from index \<open>k\<close>
  downwards: the value of \<open>i\<close> when the loop is left, by \<^verbatim>\<open>break\<close> or at its end.
\<close>

fun trim_scan :: "sequential \<Rightarrow> nat \<Rightarrow> nat" where
  "trim_scan m 0 = 0"
| "trim_scan m (Suc k) = (if is_loss_module (snd (m ! Suc k)) then Suc k else trim_scan m k)"

text \<open>An empty range would leave \<open>i\<close> at the value the first loop gave it.\<close>

definition trim_index :: "nat \<Rightarrow> sequential \<Rightarrow> nat" where
  "trim_index i m = (if m = [] then i else trim_scan m (length m - 1))"

definition default_content_layers :: "string list" where
  "default_content_layers = [''conv_5'']"

definition default_style_layers :: "string list" where
  "default_style_layers = [''conv_1'', ''conv_2'', ''conv_3'', ''conv_4'']"

text \<open>An optional argument is \<open>None\<close> when the caller leaves it out.\<close>

definition arg_or_default :: "'a \<Rightarrow> 'a option \<Rightarrow> 'a" where
  "arg_or_default dflt arg = (case arg of None \<Rightarrow> dflt | Some v \<Rightarrow> v)"

text \<open>The copy of \<^verbatim>\<open>cnn\<close> and the moves between devices do not change values.\<close>

definition get_style_model_and_losses ::
  "backend \<Rightarrow> module list \<Rightarrow> tensor \<Rightarrow> tensor \<Rightarrow> tensor \<Rightarrow> tensor
    \<Rightarrow> string list option \<Rightarrow> string list option \<Rightarrow> error + assembly" where
  "get_style_model_and_losses B cnn normalization_mean normalization_std style_img content_img
      content_layers style_layers =
     (case walk_layers B style_img content_img
             (arg_or_default default_content_layers content_layers)
             (arg_or_default default_style_layers style_layers)
             cnn 0
             \<lparr>model = [(''0'', Normalization_init normalization_mean normalization_std)],
              style_losses = [], content_losses = [], store = []\<rparr> of
        Inl e \<Rightarrow> Inl e
      | Inr (i, A) \<Rightarrow> Inr (A\<lparr>model := take (trim_index i (model A) + 1) (model A)\<rparr>))"

subsection \<open>The optimisation loop\<close>

text \<open>
  A score in the closure is a Python number (the initial \<open>0\<close>, or what remains of it when
  a loss list is empty) or a zero-dimensional tensor. Arithmetic between the two gives a
  tensor; \<^verbatim>\<open>item\<close> and \<^verbatim>\<open>backward\<close> exist only on tensors.
\<close>

datatype pyval = PyNum fl | PyTensor fl





fun value_of :: "pyval \<Rightarrow> fl" where
  "value_of (PyNum x) = x"
| "value_of (PyTensor x) = x"













text \<open>
  \<^verbatim>\<open>run_style_transfer\<close>. It passes both tap lists to the assembler by keyword; its own
  defaults apply when the caller leaves them out. The budget \<^verbatim>\<open>num_steps\<close> is an integer
  (the script passes \<^verbatim>\<open>3e4\<close>, which is one), and the weights are floating-point values.
\<close>

definition run_default_content_layers :: "string list" where
  "run_default_content_layers = [''conv_5'']"

definition run_default_style_layers :: "string list" where
  "run_default_style_layers = [''conv_1'', ''conv_3'', ''conv_4'']"

definition run_model ::
  "backend \<Rightarrow> module list \<Rightarrow> tensor \<Rightarrow> tensor \<Rightarrow> tensor \<Rightarrow> tensor
    \<Rightarrow> string list option \<Rightarrow> string list option \<Rightarrow> error + assembly" where
  "run_model B cnn normalization_mean normalization_std content_img style_img
      content_layers style_layers =
     get_style_model_and_losses B cnn normalization_mean normalization_std style_img content_img
       (Some (arg_or_default run_default_content_layers content_layers))
       (Some (arg_or_default run_default_style_layers style_layers))"


subsection \<open>A small concrete backend\<close>

text \<open>
  The theorems below hold for every backend and every optimiser. For evaluating the
  definitions on concrete inputs, here is one backend on \<open>1 \<times> 1 \<times> 2 \<times> 2\<close> images:
  a convolution with the identity kernel, ReLU, \<open>2 \<times> 2\<close> average pooling, the mean
  squared error of two tensors of the same size, and subtraction and division by a
  one-entry tensor. Inputs outside this range give an error.
\<close>

fun fdiv :: "fl \<Rightarrow> fl \<Rightarrow> fl" where
  "fdiv NaN _ = NaN"
| "fdiv _ NaN = NaN"
| "fdiv (Fin x) (Fin y) =
     (if y = 0 then (if x = 0 then NaN else if 0 < x then PInf else NInf) else Fin (x / y))"
| "fdiv (Fin x) PInf = Fin 0"
| "fdiv (Fin x) NInf = Fin 0"
| "fdiv PInf (Fin y) = (if 0 \<le> y then PInf else NInf)"
| "fdiv NInf (Fin y) = (if 0 \<le> y then NInf else PInf)"
| "fdiv PInf PInf = NaN"
| "fdiv PInf NInf = NaN"
| "fdiv NInf PInf = NaN"
| "fdiv NInf NInf = NaN"

fun relu_fl :: "fl \<Rightarrow> fl" where
  "relu_fl (Fin x) = Fin (max x 0)"
| "relu_fl PInf = PInf"
| "relu_fl NInf = Fin 0"
| "relu_fl NaN = NaN"

definition example_layer_forward :: "module \<Rightarrow> tensor \<Rightarrow> error + tensor" where
  "example_layer_forward m x =
     (case m of
        Conv2d w \<Rightarrow> Inr x
      | ReLU inplace \<Rightarrow> Inr (x\<lparr>data := map relu_fl (data x)\<rparr>)
      | AvgPool2d k s p c \<Rightarrow>
          (if k = 2 \<and> s = 2 \<and> p = 0 \<and> shape x = [1, 1, 2, 2] \<and> length (data x) = 4
           then Inr \<lparr>shape = [1, 1, 1, 1], data = [fdiv_count (sum_list (data x)) 4]\<rparr>
           else Inl (RuntimeError ''not covered by the example''))
      | _ \<Rightarrow> Inl (RuntimeError ''not covered by the example''))"

definition example_mse_loss :: "tensor \<Rightarrow> tensor \<Rightarrow> error + fl" where
  "example_mse_loss x y =
     (if shape x = shape y \<and> length (data x) = length (data y)
      then Inr (fdiv_count
                  (sum_list (map2 (\<lambda>a b. fmul (fadd a (fneg b)) (fadd a (fneg b))) (data x) (data y)))
                  (length (data x)))
      else Inl (RuntimeError ''not covered by the example''))"

definition example_scalar_op :: "(fl \<Rightarrow> fl \<Rightarrow> fl) \<Rightarrow> tensor \<Rightarrow> tensor \<Rightarrow> error + tensor" where
  "example_scalar_op f x c =
     (if length (shape x) = 4 \<and> shape c = [1, 1, 1] \<and> length (data c) = 1
      then Inr (x\<lparr>data := map (\<lambda>v. f v (hd (data c))) (data x)\<rparr>)
      else Inl (RuntimeError ''not covered by the example''))"

definition example_backend :: backend where
  "example_backend =
     \<lparr>layer_forward = example_layer_forward,
      mse_loss = example_mse_loss,
      tensor_sub = example_scalar_op (\<lambda>a b. fadd a (fneg b)),
      tensor_div = example_scalar_op fdiv,
      save_image = (\<lambda>img path. Inr ())\<rparr>"


definition one_entry :: "fl \<Rightarrow> tensor" where
  "one_entry v = \<lparr>shape = [1], data = [v]\<rparr>"

definition image_2x2 :: "fl \<Rightarrow> fl \<Rightarrow> fl \<Rightarrow> fl \<Rightarrow> tensor" where
  "image_2x2 a b c d = \<lparr>shape = [1, 1, 2, 2], data = [a, b, c, d]\<rparr>"

subsection \<open>Reading the output of a run\<close>






subsection \<open>Terms for stating properties of the assembler\<close>

text \<open>The layer kinds the walk accepts.\<close>

fun recognised :: "module \<Rightarrow> bool" where
  "recognised (Conv2d _) = True"
| "recognised (ReLU _) = True"
| "recognised (MaxPool2d _ _ _) = True"
| "recognised (BatchNorm2d _) = True"
| "recognised _ = False"

text \<open>
  The names the walk gives to the layers, with the counter starting at \<open>i\<close>, up to the
  first layer it does not recognise.
\<close>

fun layer_names :: "nat \<Rightarrow> module list \<Rightarrow> string list" where
  "layer_names i [] = []"
| "layer_names i (layer # layers) =
     (case name_layer i layer of
        Inl e \<Rightarrow> []
      | Inr (i', name, layer') \<Rightarrow> name # layer_names i' layers)"

text \<open>The index of the last loss module among the first \<open>k\<close> stages, if there is one.\<close>

fun last_tap_upto :: "sequential \<Rightarrow> nat \<Rightarrow> nat option" where
  "last_tap_upto m 0 = None"
| "last_tap_upto m (Suc k) = (if is_loss_module (snd (m ! k)) then Some k else last_tap_upto m k)"

definition last_tap :: "sequential \<Rightarrow> nat option" where
  "last_tap m = last_tap_upto m (length m)"

definition has_tap :: "sequential \<Rightarrow> bool" where
  "has_tap m = list_ex (\<lambda>(name, x). is_loss_module x) m"

text \<open>The names under which loss modules are added.\<close>

definition is_tap_name :: "string \<Rightarrow> bool" where
  "is_tap_name name = (take 13 name = ''content_loss_'' \<or> take 11 name = ''style_loss_'')"

text \<open>Loss modules sit under the tap names, and only they.\<close>

definition tap_keyed :: "sequential \<Rightarrow> bool" where
  "tap_keyed m = (\<forall>p \<in> set m. is_loss_module (snd p) \<longleftrightarrow> is_tap_name (fst p))"

text \<open>What the walk puts into the pipeline in place of a layer of the network.\<close>

fun substituted :: "module \<Rightarrow> bool" where
  "substituted (MaxPool2d k s p) = False"
| "substituted (AvgPool2d k s p c) = (k = 2 \<and> s = 2 \<and> p = 0 \<and> \<not> c)"
| "substituted (ReLU inplace) = (\<not> inplace)"
| "substituted (Other c) = False"
| "substituted _ = True"

section \<open>Properties\<close>

subsection \<open>The loop terminates\<close>











subsection \<open>The Gram matrix\<close>
















subsection \<open>The forward pass of the loss modules\<close>




subsection \<open>Pixel values after the clamp\<close>






subsection \<open>Progress lines and snapshots\<close>
















subsection \<open>A loss that is not finite\<close>






subsection \<open>The walk over the layers\<close>

lemma name_layer_Inr:
  assumes "name_layer i l = Inr (i', n, x)"
  shows "(\<exists>pre \<in> {''conv_'', ''relu_'', ''pool_'', ''bn_''}. n = pre @ str_nat i')
    \<and> \<not> is_loss_module x \<and> substituted x \<and> recognised l"
  using assms by (cases l) auto

lemma name_layer_not_tap_name:
  assumes "name_layer i l = Inr (i', n, x)"
  shows "\<not> is_tap_name n" and "n \<noteq> ''0''"
  using name_layer_Inr[OF assms] by (auto simp: is_tap_name_def)

lemma tap_names:
  "is_tap_name (''content_loss_'' @ s)" "is_tap_name (''style_loss_'' @ s)"
  "''content_loss_'' @ s \<noteq> ''0''" "''style_loss_'' @ s \<noteq> ''0''"
  by (simp_all add: is_tap_name_def)

lemma name_layer_recognised: "recognised l \<Longrightarrow> \<exists>i' n x. name_layer i l = Inr (i', n, x)"
  by (cases l) simp_all

lemma name_layer_unrecognised:
  "\<not> recognised l \<Longrightarrow> name_layer i l = Inl (RuntimeError (''Unrecognized layer: '' @ class_name l))"
  by (cases l) simp_all

lemma add_module_subset: "set (add_module n x m) \<subseteq> insert (n, x) (set m)"
  by (induction m) (auto split: if_splits)

lemma add_module_mem: "(n, x) \<in> set (add_module n x m)"
  by (induction m) (auto split: if_splits)

lemma add_module_keys: "fst ` set (add_module n x m) = insert n (fst ` set m)"
proof (induction m)
  case Nil
  then show ?case by simp
next
  case (Cons p m)
  obtain k v where p: "p = (k, v)" by (cases p)
  show ?case
  proof (cases "k = n")
    case True
    then show ?thesis by (simp add: p)
  next
    case False
    then show ?thesis using Cons.IH by (simp add: p insert_commute)
  qed
qed

lemma add_module_other:
  assumes "(k, v) \<in> set m" and "k \<noteq> n"
  shows "(k, v) \<in> set (add_module n x m)"
  using assms by (induction m) (auto split: if_splits)

lemma add_module_hd:
  assumes "m \<noteq> []" and "fst (hd m) \<noteq> n"
  shows "add_module n x m \<noteq> [] \<and> hd (add_module n x m) = hd m"
  using assms by (cases m) auto

lemma add_content_loss_Inr:
  assumes "add_content_loss B img i A = Inr A'"
  shows "\<exists>r. model A' = add_module (''content_loss_'' @ str_nat i) (ContentLoss r) (model A)
    \<and> content_losses A' = content_losses A @ [r] \<and> style_losses A' = style_losses A"
  using assms by (auto simp: add_content_loss_def split: prod.splits sum.splits)

lemma add_style_loss_Inr:
  assumes "add_style_loss B img i A = Inr A'"
  shows "\<exists>r. model A' = add_module (''style_loss_'' @ str_nat i) (StyleLoss r) (model A)
    \<and> style_losses A' = style_losses A @ [r] \<and> content_losses A' = content_losses A"
  using assms by (auto simp: add_style_loss_def split: prod.splits sum.splits)

text \<open>One round of the loop, taken apart.\<close>

lemma walk_layers_Cons_Inr:
  assumes "walk_layers B simg cimg cl sl (l # ls) i A = Inr (j, A')"
  obtains i' n x A1 A2 where "name_layer i l = Inr (i', n, x)"
    and "if n \<in> set cl then add_content_loss B cimg i' (A\<lparr>model := add_module n x (model A)\<rparr>) = Inr A1
         else A1 = A\<lparr>model := add_module n x (model A)\<rparr>"
    and "if n \<in> set sl then add_style_loss B simg i' A1 = Inr A2 else A2 = A1"
    and "walk_layers B simg cimg cl sl ls i' A2 = Inr (j, A')"
  using assms by (auto split: sum.splits prod.splits if_splits)

text \<open>
  A property of the pipeline that every kind of addition keeps holds at the end of the
  walk.
\<close>

lemma walk_layers_invariant:
  assumes layer: "\<And>m i l i' n x. P m \<Longrightarrow> name_layer i l = Inr (i', n, x) \<Longrightarrow> P (add_module n x m)"
    and ctap: "\<And>m i l i' n x r. P m \<Longrightarrow> name_layer i l = Inr (i', n, x) \<Longrightarrow> n \<in> set cl
        \<Longrightarrow> P (add_module (''content_loss_'' @ str_nat i') (ContentLoss r) m)"
    and stap: "\<And>m i l i' n x r. P m \<Longrightarrow> name_layer i l = Inr (i', n, x) \<Longrightarrow> n \<in> set sl
        \<Longrightarrow> P (add_module (''style_loss_'' @ str_nat i') (StyleLoss r) m)"
  shows "P (model A) \<Longrightarrow> walk_layers B simg cimg cl sl ls i A = Inr (j, A') \<Longrightarrow> P (model A')"
proof (induction ls arbitrary: i A)
  case Nil
  then show ?case by simp
next
  case (Cons l ls)
  from Cons.prems(2) obtain i' n x A1 A2 where nl: "name_layer i l = Inr (i', n, x)"
    and c: "if n \<in> set cl then add_content_loss B cimg i' (A\<lparr>model := add_module n x (model A)\<rparr>) = Inr A1
         else A1 = A\<lparr>model := add_module n x (model A)\<rparr>"
    and s: "if n \<in> set sl then add_style_loss B simg i' A1 = Inr A2 else A2 = A1"
    and w: "walk_layers B simg cimg cl sl ls i' A2 = Inr (j, A')"
    by (rule walk_layers_Cons_Inr)
  have p0: "P (add_module n x (model A))"
    using Cons.prems(1) nl by (rule layer)
  have p1: "P (model A1)"
  proof (cases "n \<in> set cl")
    case True
    with c obtain r where "model A1 = add_module (''content_loss_'' @ str_nat i') (ContentLoss r)
        (add_module n x (model A))"
      using add_content_loss_Inr[of B cimg i' "A\<lparr>model := add_module n x (model A)\<rparr>" A1] by auto
    with ctap[OF p0 nl True] show ?thesis by simp
  next
    case False
    with c p0 show ?thesis by simp
  qed
  have p2: "P (model A2)"
  proof (cases "n \<in> set sl")
    case True
    with s obtain r where "model A2 = add_module (''style_loss_'' @ str_nat i') (StyleLoss r) (model A1)"
      using add_style_loss_Inr[of B simg i' A1 A2] by auto
    with stap[OF p1 nl True] show ?thesis by simp
  next
    case False
    with s p1 show ?thesis by simp
  qed
  from Cons.IH[OF p2 w] show ?case .
qed

text \<open>Only the requested names that occur among the layer names matter.\<close>

lemma walk_layers_cong:
  assumes "\<And>n. n \<in> set (layer_names i ls) \<Longrightarrow> (n \<in> set cl \<longleftrightarrow> n \<in> set cl') \<and> (n \<in> set sl \<longleftrightarrow> n \<in> set sl')"
  shows "walk_layers B simg cimg cl sl ls i A = walk_layers B simg cimg cl' sl' ls i A"
  using assms
proof (induction ls arbitrary: i A)
  case Nil
  then show ?case by simp
next
  case (Cons l ls)
  show ?case
  proof (cases "name_layer i l")
    case (Inl e)
    then show ?thesis by simp
  next
    case (Inr t)
    obtain i' n x where t: "t = (i', n, x)" by (cases t) auto
    have here: "(n \<in> set cl \<longleftrightarrow> n \<in> set cl') \<and> (n \<in> set sl \<longleftrightarrow> n \<in> set sl')"
      using Cons.prems[of n] Inr t by simp
    have rest: "walk_layers B simg cimg cl sl ls i' A2 = walk_layers B simg cimg cl' sl' ls i' A2" for A2
      by (rule Cons.IH) (use Cons.prems Inr t in simp)
    show ?thesis
      using Inr t here rest by (simp split: sum.splits)
  qed
qed

lemma walk_layers_no_content:
  "walk_layers B simg cimg [] sl ls i A = Inr (j, A') \<Longrightarrow> content_losses A' = content_losses A"
proof (induction ls arbitrary: i A)
  case Nil
  then show ?case by simp
next
  case (Cons l ls)
  from Cons.prems obtain i' n x A1 A2 where
    c: "if n \<in> set [] then add_content_loss B cimg i' (A\<lparr>model := add_module n x (model A)\<rparr>) = Inr A1
         else A1 = A\<lparr>model := add_module n x (model A)\<rparr>"
    and s: "if n \<in> set sl then add_style_loss B simg i' A1 = Inr A2 else A2 = A1"
    and w: "walk_layers B simg cimg [] sl ls i' A2 = Inr (j, A')"
    by (rule walk_layers_Cons_Inr)
  from c have "content_losses A1 = content_losses A" by simp
  moreover from s have "content_losses A2 = content_losses A1"
    using add_style_loss_Inr[of B simg i' A1 A2] by (auto split: if_splits)
  ultimately show ?case using Cons.IH[OF w] by simp
qed

lemma walk_layers_no_style:
  "walk_layers B simg cimg cl [] ls i A = Inr (j, A') \<Longrightarrow> style_losses A' = style_losses A"
proof (induction ls arbitrary: i A)
  case Nil
  then show ?case by simp
next
  case (Cons l ls)
  from Cons.prems obtain i' n x A1 A2 where
    c: "if n \<in> set cl then add_content_loss B cimg i' (A\<lparr>model := add_module n x (model A)\<rparr>) = Inr A1
         else A1 = A\<lparr>model := add_module n x (model A)\<rparr>"
    and s: "if n \<in> set [] then add_style_loss B simg i' A1 = Inr A2 else A2 = A1"
    and w: "walk_layers B simg cimg cl [] ls i' A2 = Inr (j, A')"
    by (rule walk_layers_Cons_Inr)
  from c have "style_losses A1 = style_losses A"
    using add_content_loss_Inr[of B cimg i' "A\<lparr>model := add_module n x (model A)\<rparr>" A1]
    by (auto split: if_splits)
  moreover from s have "style_losses A2 = style_losses A1" by simp
  ultimately show ?case using Cons.IH[OF w] by simp
qed

text \<open>Without any tap the walk only adds layers; it fails exactly on an unrecognised layer.\<close>

lemma walk_layers_no_taps:
  "walk_layers B simg cimg [] [] ls i A = Inr (j, A') \<Longrightarrow>
     style_losses A' = style_losses A \<and> content_losses A' = content_losses A \<and> store A' = store A
     \<and> list_all recognised ls"
proof (induction ls arbitrary: i A)
  case Nil
  then show ?case by simp
next
  case (Cons l ls)
  from Cons.prems obtain i' n x where nl: "name_layer i l = Inr (i', n, x)"
    and w: "walk_layers B simg cimg [] [] ls i' (A\<lparr>model := add_module n x (model A)\<rparr>) = Inr (j, A')"
    by (auto split: sum.splits prod.splits)
  from Cons.IH[OF w] name_layer_Inr[OF nl] show ?case by simp
qed

lemma walk_layers_no_taps_total:
  "list_all recognised ls \<Longrightarrow> \<exists>j A'. walk_layers B simg cimg [] [] ls i A = Inr (j, A')"
proof (induction ls arbitrary: i A)
  case Nil
  then show ?case by simp
next
  case (Cons l ls)
  then obtain i' n x where nl: "name_layer i l = Inr (i', n, x)"
    using name_layer_recognised[of l i] by auto
  with Cons show ?case by simp
qed

subsection \<open>Trimming\<close>

lemma trim_scan_le: "trim_scan m k \<le> k"
  by (induction k) auto

lemma trim_scan_ge: "is_loss_module (snd (m ! j)) \<Longrightarrow> j \<le> k \<Longrightarrow> j \<le> trim_scan m k"
proof (induction k)
  case 0
  then show ?case by simp
next
  case (Suc k)
  show ?case
  proof (cases "is_loss_module (snd (m ! Suc k))")
    case True
    with Suc.prems show ?thesis by simp
  next
    case False
    with Suc.prems have "j \<le> k" by (cases "j = Suc k") auto
    with Suc.IH Suc.prems(1) False show ?thesis by simp
  qed
qed

lemma trim_scan_loss:
  "is_loss_module (snd (m ! j)) \<Longrightarrow> 0 < j \<Longrightarrow> j \<le> k \<Longrightarrow> is_loss_module (snd (m ! trim_scan m k))"
proof (induction k)
  case 0
  then show ?case by simp
next
  case (Suc k)
  show ?case
  proof (cases "is_loss_module (snd (m ! Suc k))")
    case True
    then show ?thesis by simp
  next
    case False
    with Suc.prems have "j \<le> k" by (cases "j = Suc k") auto
    with Suc.IH Suc.prems False show ?thesis by simp
  qed
qed

lemma trim_scan_none:
  "(\<And>j. 0 < j \<Longrightarrow> j \<le> k \<Longrightarrow> \<not> is_loss_module (snd (m ! j))) \<Longrightarrow> trim_scan m k = 0"
  by (induction k) auto

lemma has_tap_iff: "has_tap m \<longleftrightarrow> (\<exists>j < length m. is_loss_module (snd (m ! j)))"
proof
  assume "has_tap m"
  then obtain p where "p \<in> set m" and "is_loss_module (snd p)"
    by (auto simp: has_tap_def list_ex_iff)
  then show "\<exists>j < length m. is_loss_module (snd (m ! j))"
    by (auto simp: in_set_conv_nth)
next
  assume "\<exists>j < length m. is_loss_module (snd (m ! j))"
  then obtain j where "j < length m" and "is_loss_module (snd (m ! j))" by blast
  then show "has_tap m"
    unfolding has_tap_def list_ex_iff
    by (intro bexI[of _ "m ! j"]) (simp_all add: case_prod_beta)
qed

lemma last_tap_upto_None:
  "(\<And>j. j < k \<Longrightarrow> \<not> is_loss_module (snd (m ! j))) \<Longrightarrow> last_tap_upto m k = None"
  by (induction k) auto

lemma last_tap_None: "\<not> has_tap m \<Longrightarrow> last_tap m = None"
  unfolding last_tap_def by (rule last_tap_upto_None) (auto simp: has_tap_iff)

lemma last_tap_take:
  assumes "k < length m" and "is_loss_module (snd (m ! k))"
  shows "last_tap (take (Suc k) m) = Some k"
proof -
  have "length (take (Suc k) m) = Suc k" using assms(1) by simp
  then show ?thesis using assms(2) by (simp add: last_tap_def)
qed

text \<open>The trimmed pipeline, from a pipeline whose first stage is not a loss module.\<close>

lemma trim_with_tap:
  assumes "m \<noteq> []" and "\<not> is_loss_module (snd (hd m))" and "has_tap m"
  shows "\<exists>k. last_tap (take (trim_index i m + 1) m) = Some k
      \<and> length (take (trim_index i m + 1) m) = k + 1"
proof -
  from assms(3) obtain j where j: "j < length m" "is_loss_module (snd (m ! j))"
    by (auto simp: has_tap_iff)
  with assms(1,2) have "0 < j" by (cases j) (auto simp: hd_conv_nth)
  let ?k = "trim_scan m (length m - 1)"
  have "is_loss_module (snd (m ! ?k))"
    using j \<open>0 < j\<close> by (intro trim_scan_loss[of m j]) auto
  moreover have "?k < length m"
    using trim_scan_le[of m "length m - 1"] assms(1) by (cases m) auto
  ultimately show ?thesis
    using assms(1) by (simp add: trim_index_def last_tap_take)
qed

lemma trim_without_tap:
  assumes "m \<noteq> []" and "\<not> has_tap m"
  shows "trim_index i m = 0" and "take (trim_index i m + 1) m = [hd m]"
proof -
  have "trim_scan m (length m - 1) = 0"
    using assms by (intro trim_scan_none) (auto simp: has_tap_iff)
  with assms(1) show "trim_index i m = 0" by (simp add: trim_index_def)
  with assms(1) show "take (trim_index i m + 1) m = [hd m]" by (cases m) auto
qed

lemma trim_keeps_taps:
  assumes "(n, x) \<in> set m" and "is_loss_module x"
  shows "(n, x) \<in> set (take (trim_index i m + 1) m)"
proof -
  from assms(1) obtain j where j: "j < length m" "m ! j = (n, x)"
    unfolding in_set_conv_nth by blast
  then have ne: "m \<noteq> []" by auto
  have "j \<le> trim_scan m (length m - 1)"
    using j assms(2) by (intro trim_scan_ge) auto
  then have lt: "j < trim_index i m + 1"
    using ne by (simp add: trim_index_def)
  with j(1) have "j < length (take (trim_index i m + 1) m)" by simp
  then have "take (trim_index i m + 1) m ! j \<in> set (take (trim_index i m + 1) m)"
    by (rule nth_mem)
  moreover have "take (trim_index i m + 1) m ! j = (n, x)"
    using lt j(2) by simp
  ultimately show ?thesis by simp
qed

subsection \<open>What the assembler returns\<close>

lemma get_style_model_and_losses_Inr:
  assumes "get_style_model_and_losses B cnn mean std simg cimg cl sl = Inr A"
  obtains j A0 where
    "walk_layers B simg cimg (arg_or_default default_content_layers cl)
       (arg_or_default default_style_layers sl) cnn 0
       \<lparr>model = [(''0'', Normalization_init mean std)], style_losses = [], content_losses = [],
        store = []\<rparr> = Inr (j, A0)"
    and "A = A0\<lparr>model := take (trim_index j (model A0) + 1) (model A0)\<rparr>"
  using assms unfolding get_style_model_and_losses_def
  by (auto split: sum.splits prod.splits)

text \<open>The first stage stays the normalisation.\<close>

lemma walk_layers_head:
  assumes "model A \<noteq> []" and "fst (hd (model A)) = ''0''"
    and "walk_layers B simg cimg cl sl ls i A = Inr (j, A')"
  shows "model A' \<noteq> [] \<and> hd (model A') = hd (model A)"
proof -
  let ?P = "\<lambda>m. m \<noteq> [] \<and> hd m = hd (model A)"
  have "?P (model A')"
  proof (rule walk_layers_invariant[where P = ?P, OF _ _ _ _ assms(3)])
    show "?P (model A)" using assms(1) by simp
  next
    fix m i l i' n x
    assume "?P m" and "name_layer i l = Inr (i', n, x)"
    then show "?P (add_module n x m)"
      using add_module_hd[of m n x] name_layer_not_tap_name(2)[of i l i' n x] assms(2) by auto
  next
    fix m :: sequential and i' r
    assume "?P m"
    then show "?P (add_module (''content_loss_'' @ str_nat i') (ContentLoss r) m)"
      using add_module_hd[of m "''content_loss_'' @ str_nat i'" "ContentLoss r"] assms(2) by auto
  next
    fix m :: sequential and i' r
    assume "?P m"
    then show "?P (add_module (''style_loss_'' @ str_nat i') (StyleLoss r) m)"
      using add_module_hd[of m "''style_loss_'' @ str_nat i'" "StyleLoss r"] assms(2) by auto
  qed
  then show ?thesis .
qed

lemma tap_keyed_add:
  assumes "tap_keyed m" and "is_loss_module x \<longleftrightarrow> is_tap_name n"
  shows "tap_keyed (add_module n x m)"
  using assms add_module_subset[of n x m] unfolding tap_keyed_def by fastforce

lemma has_tap_add:
  assumes "tap_keyed m" and "has_tap m" and "is_loss_module x \<longleftrightarrow> is_tap_name n"
  shows "has_tap (add_module n x m)"
proof (cases "is_loss_module x")
  case True
  with add_module_mem[of n x m] show ?thesis
    unfolding has_tap_def list_ex_iff by (intro bexI[of _ "(n, x)"]) simp_all
next
  case False
  from assms(2) obtain p where p: "p \<in> set m" "is_loss_module (snd p)"
    unfolding has_tap_def list_ex_iff by (auto simp: case_prod_beta)
  with assms(1) have "is_tap_name (fst p)" by (simp add: tap_keyed_def)
  with False assms(3) have "fst p \<noteq> n" by auto
  with p(1) have "p \<in> set (add_module n x m)"
    using add_module_other[of "fst p" "snd p" m n x] by simp
  with p(2) show ?thesis
    unfolding has_tap_def list_ex_iff by (intro bexI[of _ p]) (simp_all add: case_prod_beta)
qed

lemma has_tap_added:
  assumes "is_loss_module x"
  shows "has_tap (add_module n x m)"
  using add_module_mem[of n x m] assms
  unfolding has_tap_def list_ex_iff by (intro bexI[of _ "(n, x)"]) simp_all

lemma no_tap_add:
  assumes "\<not> has_tap m" and "\<not> is_loss_module x"
  shows "\<not> has_tap (add_module n x m)"
proof
  assume "has_tap (add_module n x m)"
  then obtain p where "p \<in> set (add_module n x m)" and l: "is_loss_module (snd p)"
    unfolding has_tap_def list_ex_iff by (auto simp: case_prod_beta)
  with add_module_subset[of n x m] have "p = (n, x) \<or> p \<in> set m" by auto
  with l assms(2) have "p \<in> set m" by auto
  with l have "has_tap m"
    unfolding has_tap_def list_ex_iff by (intro bexI[of _ p]) (simp_all add: case_prod_beta)
  with assms(1) show False by simp
qed

lemma walk_layers_tap_keyed:
  assumes "tap_keyed (model A)" and "walk_layers B simg cimg cl sl ls i A = Inr (j, A')"
  shows "tap_keyed (model A')"
proof (rule walk_layers_invariant[where P = tap_keyed, OF _ _ _ assms])
  fix m i l i' n x
  assume "tap_keyed m" and "name_layer i l = Inr (i', n, x)"
  then show "tap_keyed (add_module n x m)"
    using name_layer_Inr[of i l i' n x] name_layer_not_tap_name(1)[of i l i' n x]
    by (intro tap_keyed_add) auto
next
  fix m :: sequential and i' r
  assume "tap_keyed m"
  then show "tap_keyed (add_module (''content_loss_'' @ str_nat i') (ContentLoss r) m)"
    by (intro tap_keyed_add) (simp_all add: is_tap_name_def)
next
  fix m :: sequential and i' r
  assume "tap_keyed m"
  then show "tap_keyed (add_module (''style_loss_'' @ str_nat i') (StyleLoss r) m)"
    by (intro tap_keyed_add) (simp_all add: is_tap_name_def)
qed

lemma walk_layers_keeps_tap:
  assumes "tap_keyed (model A)" and "has_tap (model A)"
    and "walk_layers B simg cimg cl sl ls i A = Inr (j, A')"
  shows "has_tap (model A')"
proof -
  let ?P = "\<lambda>m. tap_keyed m \<and> has_tap m"
  have "?P (model A')"
  proof (rule walk_layers_invariant[where P = ?P, OF _ _ _ _ assms(3)])
    show "?P (model A)" using assms(1,2) by simp
  next
    fix m i l i' n x
    assume "?P m" and "name_layer i l = Inr (i', n, x)"
    then show "?P (add_module n x m)"
      using name_layer_Inr[of i l i' n x] name_layer_not_tap_name(1)[of i l i' n x]
        tap_keyed_add[of m x n] has_tap_add[of m x n] by auto
  next
    fix m :: sequential and i' r
    assume "?P m"
    then show "?P (add_module (''content_loss_'' @ str_nat i') (ContentLoss r) m)"
      using tap_keyed_add[of m "ContentLoss r" "''content_loss_'' @ str_nat i'"]
      by (simp add: is_tap_name_def has_tap_added)
  next
    fix m :: sequential and i' r
    assume "?P m"
    then show "?P (add_module (''style_loss_'' @ str_nat i') (StyleLoss r) m)"
      using tap_keyed_add[of m "StyleLoss r" "''style_loss_'' @ str_nat i'"]
      by (simp add: is_tap_name_def has_tap_added)
  qed
  then show ?thesis by simp
qed

text \<open>A requested name that occurs puts a loss module into the pipeline.\<close>

lemma walk_layers_gets_tap:
  assumes "tap_keyed (model A)"
    and "list_ex (\<lambda>n. n \<in> set cl \<or> n \<in> set sl) (layer_names i ls)"
    and "walk_layers B simg cimg cl sl ls i A = Inr (j, A')"
  shows "has_tap (model A')"
  using assms
proof (induction ls arbitrary: i A)
  case Nil
  then show ?case by simp
next
  case (Cons l ls)
  from Cons.prems(3) obtain i' n x A1 A2 where nl: "name_layer i l = Inr (i', n, x)"
    and c: "if n \<in> set cl then add_content_loss B cimg i' (A\<lparr>model := add_module n x (model A)\<rparr>) = Inr A1
         else A1 = A\<lparr>model := add_module n x (model A)\<rparr>"
    and s: "if n \<in> set sl then add_style_loss B simg i' A1 = Inr A2 else A2 = A1"
    and w: "walk_layers B simg cimg cl sl ls i' A2 = Inr (j, A')"
    by (rule walk_layers_Cons_Inr)
  have k0: "tap_keyed (add_module n x (model A))"
    using Cons.prems(1) name_layer_Inr[OF nl] name_layer_not_tap_name(1)[OF nl]
    by (intro tap_keyed_add) auto
  have k1: "tap_keyed (model A1) \<and> (n \<in> set cl \<longrightarrow> has_tap (model A1))"
  proof (cases "n \<in> set cl")
    case True
    with c obtain r where "model A1 = add_module (''content_loss_'' @ str_nat i') (ContentLoss r)
        (add_module n x (model A))"
      using add_content_loss_Inr[of B cimg i' "A\<lparr>model := add_module n x (model A)\<rparr>" A1] by auto
    with k0 show ?thesis
      using tap_keyed_add[of "add_module n x (model A)" "ContentLoss r" "''content_loss_'' @ str_nat i'"]
      by (simp add: is_tap_name_def has_tap_added)
  next
    case False
    with c k0 show ?thesis by simp
  qed
  have k2: "tap_keyed (model A2) \<and> (n \<in> set cl \<or> n \<in> set sl \<longrightarrow> has_tap (model A2))"
  proof (cases "n \<in> set sl")
    case True
    with s obtain r where "model A2 = add_module (''style_loss_'' @ str_nat i') (StyleLoss r) (model A1)"
      using add_style_loss_Inr[of B simg i' A1 A2] by auto
    with k1 show ?thesis
      using tap_keyed_add[of "model A1" "StyleLoss r" "''style_loss_'' @ str_nat i'"]
      by (simp add: is_tap_name_def has_tap_added)
  next
    case False
    with s k1 show ?thesis by simp
  qed
  show ?case
  proof (cases "n \<in> set cl \<or> n \<in> set sl")
    case True
    with k2 have "tap_keyed (model A2)" and "has_tap (model A2)" by simp_all
    then show ?thesis using w by (rule walk_layers_keeps_tap)
  next
    case False
    with Cons.prems(2) nl have "list_ex (\<lambda>n. n \<in> set cl \<or> n \<in> set sl) (layer_names i' ls)"
      by simp
    with k2 w show ?thesis by (intro Cons.IH[of A2 i']) simp_all
  qed
qed

text \<open>Without a requested name that occurs, no loss module gets in.\<close>

lemma walk_layers_unmatched:
  assumes "\<not> list_ex (\<lambda>n. n \<in> set cl \<or> n \<in> set sl) (layer_names i ls)"
  shows "walk_layers B simg cimg cl sl ls i A = walk_layers B simg cimg [] [] ls i A"
  by (rule walk_layers_cong) (use assms in \<open>auto simp: list_ex_iff\<close>)

lemma walk_layers_no_taps_model:
  assumes "\<not> has_tap (model A)" and "walk_layers B simg cimg [] [] ls i A = Inr (j, A')"
  shows "\<not> has_tap (model A')"
proof (rule walk_layers_invariant[where P = "\<lambda>m. \<not> has_tap m", OF _ _ _ assms])
  fix m i l i' n x
  assume "\<not> has_tap m" and "name_layer i l = Inr (i', n, x)"
  then show "\<not> has_tap (add_module n x m)"
    using name_layer_Inr[of i l i' n x] by (intro no_tap_add) auto
qed simp_all

lemma initial_model:
  "tap_keyed [(''0'', Normalization_init mean std)]"
  "\<not> has_tap [(''0'', Normalization_init mean std)]"
  "\<not> is_loss_module (Normalization_init mean std)"
  by (simp_all add: tap_keyed_def has_tap_def Normalization_init_def is_tap_name_def)

lemma get_style_model_and_losses_shape:
  assumes "get_style_model_and_losses B cnn mean std simg cimg cl sl = Inr A"
  shows "\<exists>j A0. walk_layers B simg cimg (arg_or_default default_content_layers cl)
       (arg_or_default default_style_layers sl) cnn 0
       \<lparr>model = [(''0'', Normalization_init mean std)], style_losses = [], content_losses = [],
        store = []\<rparr> = Inr (j, A0)
     \<and> A = A0\<lparr>model := take (trim_index j (model A0) + 1) (model A0)\<rparr>
     \<and> model A0 \<noteq> [] \<and> hd (model A0) = (''0'', Normalization_init mean std)
     \<and> tap_keyed (model A0)"
proof -
  let ?I = "\<lparr>model = [(''0'', Normalization_init mean std)], style_losses = [], content_losses = [],
        store = []\<rparr>"
  from assms obtain j A0 where
    w: "walk_layers B simg cimg (arg_or_default default_content_layers cl)
       (arg_or_default default_style_layers sl) cnn 0 ?I = Inr (j, A0)"
    and A: "A = A0\<lparr>model := take (trim_index j (model A0) + 1) (model A0)\<rparr>"
    by (rule get_style_model_and_losses_Inr)
  have "model A0 \<noteq> [] \<and> hd (model A0) = hd (model ?I)"
    by (rule walk_layers_head[OF _ _ w]) simp_all
  moreover have "tap_keyed (model A0)"
    by (rule walk_layers_tap_keyed[OF _ w]) (simp add: initial_model)
  ultimately show ?thesis using w A by auto
qed

subsection \<open>Truncation after the last tap\<close>

text \<open>
  Claim C2, as amended. In every pipeline the assembler returns: when at least one
  requested name occurs among the names of the layers, the number of stages is the index
  of the last loss module plus one; when none occurs, there is no loss module and the
  pipeline is the normalisation alone.
\<close>

theorem truncated_after_last_tap:
  assumes "get_style_model_and_losses B cnn mean std simg cimg cl sl = Inr A"
  shows "if list_ex (\<lambda>n. n \<in> set (arg_or_default default_content_layers cl)
                      \<or> n \<in> set (arg_or_default default_style_layers sl)) (layer_names 0 cnn)
         then \<exists>k. last_tap (model A) = Some k \<and> length (model A) = k + 1
         else last_tap (model A) = None \<and> model A = [(''0'', Normalization_init mean std)]"
proof -
  let ?cl = "arg_or_default default_content_layers cl"
  let ?sl = "arg_or_default default_style_layers sl"
  let ?I = "\<lparr>model = [(''0'', Normalization_init mean std)], style_losses = [], content_losses = [],
        store = []\<rparr>"
  from get_style_model_and_losses_shape[OF assms] obtain j A0 where
    w: "walk_layers B simg cimg ?cl ?sl cnn 0 ?I = Inr (j, A0)"
    and A: "model A = take (trim_index j (model A0) + 1) (model A0)"
    and ne: "model A0 \<noteq> []" and hd: "hd (model A0) = (''0'', Normalization_init mean std)"
    by auto
  show ?thesis
  proof (cases "list_ex (\<lambda>n. n \<in> set ?cl \<or> n \<in> set ?sl) (layer_names 0 cnn)")
    case True
    have "has_tap (model A0)"
      by (rule walk_layers_gets_tap[OF _ True w]) (simp add: initial_model)
    with ne hd have "\<exists>k. last_tap (take (trim_index j (model A0) + 1) (model A0)) = Some k
        \<and> length (take (trim_index j (model A0) + 1) (model A0)) = k + 1"
      by (intro trim_with_tap) (simp_all add: initial_model)
    with True A show ?thesis by simp
  next
    case False
    from w have w': "walk_layers B simg cimg [] [] cnn 0 ?I = Inr (j, A0)"
      using walk_layers_unmatched[OF False] by simp
    have nt: "\<not> has_tap (model A0)"
      by (rule walk_layers_no_taps_model[OF _ w']) (simp add: initial_model)
    with ne hd have m: "model A = [(''0'', Normalization_init mean std)]"
      using trim_without_tap(2)[of "model A0" j] A by simp
    then have "\<not> has_tap (model A)"
      by (simp add: initial_model)
    then have "last_tap (model A) = None" by (rule last_tap_None)
    with False m show ?thesis by simp
  qed
qed

theorem truncated_after_last_tap_witness:
  "get_style_model_and_losses example_backend [Conv2d 0, ReLU True, Conv2d 1]
       (one_entry (Fin 0)) (one_entry (Fin 1))
       (image_2x2 (Fin 1) (Fin 0) (Fin 0) (Fin 1)) (image_2x2 (Fin 1) (Fin 1) (Fin 0) (Fin 0))
       (Some [''relu_1'']) (Some [''conv_1''])
     = Inr \<lparr>model = [(''0'', Normalization \<lparr>shape = [1, 1, 1], data = [Fin 0]\<rparr>
                             \<lparr>shape = [1, 1, 1], data = [Fin 1]\<rparr>),
                      (''conv_1'', Conv2d 0), (''style_loss_1'', StyleLoss 0),
                      (''relu_1'', ReLU False), (''content_loss_1'', ContentLoss 1)],
             style_losses = [0], content_losses = [1],
             store = [\<lparr>target = \<lparr>shape = [1, 1], data = [Fin (1 / 2)]\<rparr>, loss = Some (Fin 0)\<rparr>,
                      \<lparr>target = image_2x2 (Fin 1) (Fin 1) (Fin 0) (Fin 0), loss = None\<rparr>]\<rparr>
   \<and> last_tap [(''0'', Normalization \<lparr>shape = [1, 1, 1], data = [Fin 0]\<rparr>
                             \<lparr>shape = [1, 1, 1], data = [Fin 1]\<rparr>),
                (''conv_1'', Conv2d 0), (''style_loss_1'', StyleLoss 0),
                (''relu_1'', ReLU False), (''content_loss_1'', ContentLoss 1)] = Some 4"
proof -
  let ?M = "[(''0'', Normalization \<lparr>shape = [1, 1, 1], data = [Fin 0]\<rparr>
                             \<lparr>shape = [1, 1, 1], data = [Fin 1]\<rparr>),
                      (''conv_1'', Conv2d 0), (''style_loss_1'', StyleLoss 0),
                      (''relu_1'', ReLU False), (''content_loss_1'', ContentLoss 1)]"
  let ?A = "\<lparr>model = ?M, style_losses = [0], content_losses = [1],
             store = [\<lparr>target = \<lparr>shape = [1, 1], data = [Fin (1 / 2)]\<rparr>, loss = Some (Fin 0)\<rparr>,
                      \<lparr>target = image_2x2 (Fin 1) (Fin 1) (Fin 0) (Fin 0), loss = None\<rparr>]\<rparr>"
  have g: "get_style_model_and_losses example_backend [Conv2d 0, ReLU True, Conv2d 1]
       (one_entry (Fin 0)) (one_entry (Fin 1))
       (image_2x2 (Fin 1) (Fin 0) (Fin 0) (Fin 1)) (image_2x2 (Fin 1) (Fin 1) (Fin 0) (Fin 0))
       (Some [''relu_1'']) (Some [''conv_1'']) = Inr ?A"
    by code_simp
  have c: "list_ex (\<lambda>n. n \<in> set (arg_or_default default_content_layers (Some [''relu_1'']))
                      \<or> n \<in> set (arg_or_default default_style_layers (Some [''conv_1''])))
        (layer_names 0 [Conv2d 0, ReLU True, Conv2d 1])"
    by code_simp
  have "\<exists>k. last_tap (model ?A) = Some k \<and> length (model ?A) = k + 1"
    using truncated_after_last_tap[OF g] unfolding if_P[OF c] .
  then obtain k where k1: "last_tap (model ?A) = Some k" and k2: "length (model ?A) = k + 1"
    by blast
  from k2 have "k = 4" by simp
  with k1 have "last_tap ?M = Some 4" by simp
  with g show ?thesis by blast
qed

text \<open>
  The claim as stated, for every configuration, fails when no requested depth occurs in
  the network: the pipeline returned has one stage and no loss module, so there is no
  last tap whose index plus one could be the number of stages.
\<close>

theorem no_last_tap_counterexample:
  "get_style_model_and_losses example_backend [Conv2d 0, ReLU True, Conv2d 1]
       (one_entry (Fin 0)) (one_entry (Fin 1))
       (image_2x2 (Fin 1) (Fin 0) (Fin 0) (Fin 1)) (image_2x2 (Fin 1) (Fin 1) (Fin 0) (Fin 0))
       (Some [''conv_5'']) (Some [''conv_3'', ''conv_4''])
     = Inr \<lparr>model = [(''0'', Normalization \<lparr>shape = [1, 1, 1], data = [Fin 0]\<rparr>
                             \<lparr>shape = [1, 1, 1], data = [Fin 1]\<rparr>)],
             style_losses = [], content_losses = [], store = []\<rparr>
   \<and> last_tap [(''0'', Normalization \<lparr>shape = [1, 1, 1], data = [Fin 0]\<rparr>
                             \<lparr>shape = [1, 1, 1], data = [Fin 1]\<rparr>)] = None
   \<and> length [(''0'', Normalization \<lparr>shape = [1, 1, 1], data = [Fin 0]\<rparr>
                             \<lparr>shape = [1, 1, 1], data = [Fin 1]\<rparr>)] = 1"
  by code_simp

subsection \<open>No tap at all\<close>

text \<open>
  Claim C9. When no requested name of either kind occurs among the names of the layers,
  the trimming loop ends with index 0, and what the assembler returns is the
  normalisation alone with two empty loss lists. (It returns whenever every layer is of a
  recognised kind; on another layer the walk has raised before.)
\<close>

theorem no_tap_gives_normalization_alone:
  assumes "\<not> list_ex (\<lambda>n. n \<in> set (arg_or_default default_content_layers cl)
                      \<or> n \<in> set (arg_or_default default_style_layers sl)) (layer_names 0 cnn)"
  shows "(list_all recognised cnn \<longrightarrow>
            get_style_model_and_losses B cnn mean std simg cimg cl sl
              = Inr \<lparr>model = [(''0'', Normalization_init mean std)], style_losses = [],
                     content_losses = [], store = []\<rparr>)
    \<and> (\<forall>A. get_style_model_and_losses B cnn mean std simg cimg cl sl = Inr A \<longrightarrow>
            A = \<lparr>model = [(''0'', Normalization_init mean std)], style_losses = [],
                 content_losses = [], store = []\<rparr>)
    \<and> (\<forall>j A0. walk_layers B simg cimg (arg_or_default default_content_layers cl)
            (arg_or_default default_style_layers sl) cnn 0
            \<lparr>model = [(''0'', Normalization_init mean std)], style_losses = [],
             content_losses = [], store = []\<rparr> = Inr (j, A0) \<longrightarrow>
          trim_index j (model A0) = 0)"
proof -
  let ?cl = "arg_or_default default_content_layers cl"
  let ?sl = "arg_or_default default_style_layers sl"
  let ?I = "\<lparr>model = [(''0'', Normalization_init mean std)], style_losses = [], content_losses = [],
        store = []\<rparr>"
  have u: "walk_layers B simg cimg ?cl ?sl cnn 0 ?I = walk_layers B simg cimg [] [] cnn 0 ?I"
    by (rule walk_layers_unmatched[OF assms])
  have shape: "trim_index j (model A0) = 0
      \<and> A0\<lparr>model := take (trim_index j (model A0) + 1) (model A0)\<rparr> = ?I"
    if w: "walk_layers B simg cimg ?cl ?sl cnn 0 ?I = Inr (j, A0)" for j A0
  proof -
    from w u have w': "walk_layers B simg cimg [] [] cnn 0 ?I = Inr (j, A0)" by simp
    have h: "model A0 \<noteq> [] \<and> hd (model A0) = hd (model ?I)"
      by (rule walk_layers_head[OF _ _ w]) simp_all
    have nt: "\<not> has_tap (model A0)"
      by (rule walk_layers_no_taps_model[OF _ w']) (simp add: initial_model)
    from walk_layers_no_taps[OF w'] have f: "style_losses A0 = []" "content_losses A0 = []" "store A0 = []"
      by simp_all
    from h nt have "trim_index j (model A0) = 0"
      and "take (trim_index j (model A0) + 1) (model A0) = [(''0'', Normalization_init mean std)]"
      using trim_without_tap[of "model A0" j] by simp_all
    with f show ?thesis by (cases A0) simp
  qed
  have 1: "get_style_model_and_losses B cnn mean std simg cimg cl sl = Inr ?I"
    if "list_all recognised cnn"
  proof -
    from walk_layers_no_taps_total[OF that, of B simg cimg 0 ?I] u
    obtain j A0 where w: "walk_layers B simg cimg ?cl ?sl cnn 0 ?I = Inr (j, A0)" by auto
    from shape[OF w] have e: "A0\<lparr>model := take (trim_index j (model A0) + 1) (model A0)\<rparr> = ?I"
      by (rule conjunct2)
    show ?thesis
      unfolding get_style_model_and_losses_def by (simp only: w sum.case prod.case e)
  qed
  have 2: "A = ?I" if "get_style_model_and_losses B cnn mean std simg cimg cl sl = Inr A" for A
  proof -
    from that obtain j A0 where w: "walk_layers B simg cimg ?cl ?sl cnn 0 ?I = Inr (j, A0)"
      and A: "A = A0\<lparr>model := take (trim_index j (model A0) + 1) (model A0)\<rparr>"
      by (rule get_style_model_and_losses_Inr)
    from shape[OF w] have "A0\<lparr>model := take (trim_index j (model A0) + 1) (model A0)\<rparr> = ?I"
      by (rule conjunct2)
    with A show ?thesis by (simp only:)
  qed
  have 3: "trim_index j (model A0) = 0"
    if "walk_layers B simg cimg ?cl ?sl cnn 0 ?I = Inr (j, A0)" for j A0
    using shape[OF that] by (rule conjunct1)
  from 1 2 3 show ?thesis by blast
qed

theorem no_tap_gives_normalization_alone_witness:
  "get_style_model_and_losses example_backend [Conv2d 0, ReLU True, MaxPool2d 2 2 0, Conv2d 1]
       (one_entry (Fin 0)) (one_entry (Fin 1))
       (image_2x2 (Fin 1) (Fin 0) (Fin 0) (Fin 1)) (image_2x2 (Fin 1) (Fin 1) (Fin 0) (Fin 0))
       None (Some [''conv_3'', ''conv_4''])
     = Inr \<lparr>model = [(''0'', Normalization_init (one_entry (Fin 0)) (one_entry (Fin 1)))],
             style_losses = [], content_losses = [], store = []\<rparr>"
proof -
  have a: "\<not> list_ex (\<lambda>n. n \<in> set (arg_or_default default_content_layers None)
                      \<or> n \<in> set (arg_or_default default_style_layers (Some [''conv_3'', ''conv_4''])))
        (layer_names 0 [Conv2d 0, ReLU True, MaxPool2d 2 2 0, Conv2d 1])"
    by code_simp
  have r: "list_all recognised [Conv2d 0, ReLU True, MaxPool2d 2 2 0, Conv2d 1]"
    by simp
  from no_tap_gives_normalization_alone[OF a] r show ?thesis by blast
qed

subsection \<open>A requested depth that never occurs\<close>

lemma get_style_model_and_losses_cong:
  assumes "\<And>n. n \<in> set (layer_names 0 cnn) \<Longrightarrow>
      (n \<in> set (arg_or_default default_content_layers cl) \<longleftrightarrow> n \<in> set (arg_or_default default_content_layers cl'))
      \<and> (n \<in> set (arg_or_default default_style_layers sl) \<longleftrightarrow> n \<in> set (arg_or_default default_style_layers sl'))"
  shows "get_style_model_and_losses B cnn mean std simg cimg cl sl
    = get_style_model_and_losses B cnn mean std simg cimg cl' sl'"
  unfolding get_style_model_and_losses_def
  using walk_layers_cong[of 0 cnn "arg_or_default default_content_layers cl"
      "arg_or_default default_content_layers cl'" "arg_or_default default_style_layers sl"
      "arg_or_default default_style_layers sl'" B simg cimg] assms
  by simp

text \<open>
  Claim C7, as amended. A requested depth whose name never occurs among the names of the
  layers is a silent no-op: the assembler behaves exactly as if it had not been requested,
  so it raises no error on that account and adds no loss module for it. The loss list of a
  category is empty when none of the depths requested for it occurs.
\<close>

theorem unmatched_depth_is_silent_noop:
  "get_style_model_and_losses B cnn mean std simg cimg cl sl
     = get_style_model_and_losses B cnn mean std simg cimg
         (Some (filter (\<lambda>n. n \<in> set (layer_names 0 cnn)) (arg_or_default default_content_layers cl)))
         (Some (filter (\<lambda>n. n \<in> set (layer_names 0 cnn)) (arg_or_default default_style_layers sl)))
   \<and> (list_all (\<lambda>n. n \<notin> set (layer_names 0 cnn)) (arg_or_default default_content_layers cl) \<longrightarrow>
        (\<forall>A. get_style_model_and_losses B cnn mean std simg cimg cl sl = Inr A \<longrightarrow> content_losses A = []))
   \<and> (list_all (\<lambda>n. n \<notin> set (layer_names 0 cnn)) (arg_or_default default_style_layers sl) \<longrightarrow>
        (\<forall>A. get_style_model_and_losses B cnn mean std simg cimg cl sl = Inr A \<longrightarrow> style_losses A = []))"
proof (intro conjI impI allI)
  show "get_style_model_and_losses B cnn mean std simg cimg cl sl
     = get_style_model_and_losses B cnn mean std simg cimg
         (Some (filter (\<lambda>n. n \<in> set (layer_names 0 cnn)) (arg_or_default default_content_layers cl)))
         (Some (filter (\<lambda>n. n \<in> set (layer_names 0 cnn)) (arg_or_default default_style_layers sl)))"
    by (rule get_style_model_and_losses_cong) (simp add: arg_or_default_def)
next
  fix A
  let ?I = "\<lparr>model = [(''0'', Normalization_init mean std)], style_losses = [], content_losses = [],
        store = []\<rparr>"
  assume u: "list_all (\<lambda>n. n \<notin> set (layer_names 0 cnn)) (arg_or_default default_content_layers cl)"
    and g: "get_style_model_and_losses B cnn mean std simg cimg cl sl = Inr A"
  from g obtain j A0 where
    w: "walk_layers B simg cimg (arg_or_default default_content_layers cl)
       (arg_or_default default_style_layers sl) cnn 0 ?I = Inr (j, A0)"
    and A: "A = A0\<lparr>model := take (trim_index j (model A0) + 1) (model A0)\<rparr>"
    by (rule get_style_model_and_losses_Inr)
  have "walk_layers B simg cimg (arg_or_default default_content_layers cl)
       (arg_or_default default_style_layers sl) cnn 0 ?I
      = walk_layers B simg cimg [] (arg_or_default default_style_layers sl) cnn 0 ?I"
    by (rule walk_layers_cong) (use u in \<open>auto simp: list_all_iff\<close>)
  with w have "content_losses A0 = content_losses ?I"
    by (intro walk_layers_no_content[of B simg cimg _ cnn 0 ?I j A0]) simp
  with A show "content_losses A = []" by simp
next
  fix A
  let ?I = "\<lparr>model = [(''0'', Normalization_init mean std)], style_losses = [], content_losses = [],
        store = []\<rparr>"
  assume u: "list_all (\<lambda>n. n \<notin> set (layer_names 0 cnn)) (arg_or_default default_style_layers sl)"
    and g: "get_style_model_and_losses B cnn mean std simg cimg cl sl = Inr A"
  from g obtain j A0 where
    w: "walk_layers B simg cimg (arg_or_default default_content_layers cl)
       (arg_or_default default_style_layers sl) cnn 0 ?I = Inr (j, A0)"
    and A: "A = A0\<lparr>model := take (trim_index j (model A0) + 1) (model A0)\<rparr>"
    by (rule get_style_model_and_losses_Inr)
  have "walk_layers B simg cimg (arg_or_default default_content_layers cl)
       (arg_or_default default_style_layers sl) cnn 0 ?I
      = walk_layers B simg cimg (arg_or_default default_content_layers cl) [] cnn 0 ?I"
    by (rule walk_layers_cong) (use u in \<open>auto simp: list_all_iff\<close>)
  with w have "style_losses A0 = style_losses ?I"
    by (intro walk_layers_no_style[of B simg cimg _ cnn 0 ?I j A0]) simp
  with A show "style_losses A = []" by simp
qed

theorem unmatched_depth_is_silent_noop_witness:
  "get_style_model_and_losses example_backend [Conv2d 0, ReLU True]
       (one_entry (Fin 0)) (one_entry (Fin 1))
       (image_2x2 (Fin 1) (Fin 0) (Fin 0) (Fin 1)) (image_2x2 (Fin 1) (Fin 1) (Fin 0) (Fin 0))
       None (Some [''conv_1''])
     = Inr \<lparr>model = [(''0'', Normalization \<lparr>shape = [1, 1, 1], data = [Fin 0]\<rparr>
                             \<lparr>shape = [1, 1, 1], data = [Fin 1]\<rparr>),
                      (''conv_1'', Conv2d 0), (''style_loss_1'', StyleLoss 0)],
             style_losses = [0], content_losses = [],
             store = [\<lparr>target = \<lparr>shape = [1, 1], data = [Fin (1 / 2)]\<rparr>, loss = None\<rparr>]\<rparr>
   \<and> content_losses \<lparr>model = [(''0'', Normalization \<lparr>shape = [1, 1, 1], data = [Fin 0]\<rparr>
                             \<lparr>shape = [1, 1, 1], data = [Fin 1]\<rparr>),
                      (''conv_1'', Conv2d 0), (''style_loss_1'', StyleLoss 0)],
             style_losses = [0], content_losses = [],
             store = [\<lparr>target = \<lparr>shape = [1, 1], data = [Fin (1 / 2)]\<rparr>, loss = None\<rparr>]\<rparr> = []"
proof -
  have g: "get_style_model_and_losses example_backend [Conv2d 0, ReLU True]
       (one_entry (Fin 0)) (one_entry (Fin 1))
       (image_2x2 (Fin 1) (Fin 0) (Fin 0) (Fin 1)) (image_2x2 (Fin 1) (Fin 1) (Fin 0) (Fin 0))
       None (Some [''conv_1''])
     = Inr \<lparr>model = [(''0'', Normalization \<lparr>shape = [1, 1, 1], data = [Fin 0]\<rparr>
                             \<lparr>shape = [1, 1, 1], data = [Fin 1]\<rparr>),
                      (''conv_1'', Conv2d 0), (''style_loss_1'', StyleLoss 0)],
             style_losses = [0], content_losses = [],
             store = [\<lparr>target = \<lparr>shape = [1, 1], data = [Fin (1 / 2)]\<rparr>, loss = None\<rparr>]\<rparr>"
    by code_simp
  have u: "list_all (\<lambda>n. n \<notin> set (layer_names 0 [Conv2d 0, ReLU True]))
      (arg_or_default default_content_layers None)"
    by code_simp
  from unmatched_depth_is_silent_noop[of example_backend "[Conv2d 0, ReLU True]"
      "one_entry (Fin 0)" "one_entry (Fin 1)"
      "image_2x2 (Fin 1) (Fin 0) (Fin 0) (Fin 1)" "image_2x2 (Fin 1) (Fin 1) (Fin 0) (Fin 0)"
      None "Some [''conv_1'']"] u g
  have "content_losses \<lparr>model = [(''0'', Normalization \<lparr>shape = [1, 1, 1], data = [Fin 0]\<rparr>
                             \<lparr>shape = [1, 1, 1], data = [Fin 1]\<rparr>),
                      (''conv_1'', Conv2d 0), (''style_loss_1'', StyleLoss 0)],
             style_losses = [0], content_losses = [],
             store = [\<lparr>target = \<lparr>shape = [1, 1], data = [Fin (1 / 2)]\<rparr>, loss = None\<rparr>]\<rparr> = []"
    by blast
  with g show ?thesis by blast
qed

text \<open>
  The claim as stated fails when another depth of the same category does occur. With the
  assembler's default taps on a network with one convolution, the style depths
  \<open>conv_2\<close>, \<open>conv_3\<close> and \<open>conv_4\<close> never occur, yet the style list is not empty.
\<close>

theorem unmatched_depth_list_not_empty_counterexample:
  "get_style_model_and_losses example_backend [Conv2d 0, ReLU True]
       (one_entry (Fin 0)) (one_entry (Fin 1))
       (image_2x2 (Fin 1) (Fin 0) (Fin 0) (Fin 1)) (image_2x2 (Fin 1) (Fin 1) (Fin 0) (Fin 0))
       None None
     = Inr \<lparr>model = [(''0'', Normalization \<lparr>shape = [1, 1, 1], data = [Fin 0]\<rparr>
                             \<lparr>shape = [1, 1, 1], data = [Fin 1]\<rparr>),
                      (''conv_1'', Conv2d 0), (''style_loss_1'', StyleLoss 0)],
             style_losses = [0], content_losses = [],
             store = [\<lparr>target = \<lparr>shape = [1, 1], data = [Fin (1 / 2)]\<rparr>, loss = None\<rparr>]\<rparr>
   \<and> layer_names 0 [Conv2d 0, ReLU True] = [''conv_1'', ''relu_1'']
   \<and> default_style_layers = [''conv_1'', ''conv_2'', ''conv_3'', ''conv_4'']"
  by code_simp

subsection \<open>Pooling layers\<close>





subsection \<open>The default taps of the two entry points\<close>

lemma style_key_kept:
  assumes "\<exists>x. (''style_loss_2'', x) \<in> set m \<and> is_loss_module x"
    and "n \<noteq> ''style_loss_2'' \<or> is_loss_module y"
  shows "\<exists>x. (''style_loss_2'', x) \<in> set (add_module n y m) \<and> is_loss_module x"
proof (cases "n = ''style_loss_2''")
  case True
  with assms(2) add_module_mem[of n y m] show ?thesis by auto
next
  case False
  from assms(1) obtain x where "(''style_loss_2'', x) \<in> set m" and "is_loss_module x" by blast
  with False add_module_other[of "''style_loss_2''" x m n y] show ?thesis by auto
qed

lemma walk_layers_style_key_kept:
  assumes "\<exists>x. (''style_loss_2'', x) \<in> set (model A) \<and> is_loss_module x"
    and "walk_layers B simg cimg cl sl ls i A = Inr (j, A')"
  shows "\<exists>x. (''style_loss_2'', x) \<in> set (model A') \<and> is_loss_module x"
proof (rule walk_layers_invariant[where
      P = "\<lambda>m. \<exists>x. (''style_loss_2'', x) \<in> set m \<and> is_loss_module x", OF _ _ _ assms])
  fix m :: sequential and i l i' n x
  assume "\<exists>x. (''style_loss_2'', x) \<in> set m \<and> is_loss_module x" and "name_layer i l = Inr (i', n, x)"
  then show "\<exists>y. (''style_loss_2'', y) \<in> set (add_module n x m) \<and> is_loss_module y"
    using name_layer_not_tap_name(1)[of i l i' n x]
    by (intro style_key_kept) (auto simp: is_tap_name_def)
next
  fix m :: sequential and i' r
  assume "\<exists>x. (''style_loss_2'', x) \<in> set m \<and> is_loss_module x"
  then show "\<exists>y. (''style_loss_2'', y) \<in> set (add_module (''content_loss_'' @ str_nat i') (ContentLoss r) m)
      \<and> is_loss_module y"
    by (intro style_key_kept) simp_all
next
  fix m :: sequential and i' r
  assume "\<exists>x. (''style_loss_2'', x) \<in> set m \<and> is_loss_module x"
  then show "\<exists>y. (''style_loss_2'', y) \<in> set (add_module (''style_loss_'' @ str_nat i') (StyleLoss r) m)
      \<and> is_loss_module y"
    by (intro style_key_kept) simp_all
qed

lemma walk_layers_style_key_present:
  assumes "''conv_2'' \<in> set sl" and "''conv_2'' \<in> set (layer_names i ls)"
    and "walk_layers B simg cimg cl sl ls i A = Inr (j, A')"
  shows "\<exists>x. (''style_loss_2'', x) \<in> set (model A') \<and> is_loss_module x"
  using assms(2,3)
proof (induction ls arbitrary: i A)
  case Nil
  then show ?case by simp
next
  case (Cons l ls)
  from Cons.prems(2) obtain i' n x A1 A2 where nl: "name_layer i l = Inr (i', n, x)"
    and s: "if n \<in> set sl then add_style_loss B simg i' A1 = Inr A2 else A2 = A1"
    and w: "walk_layers B simg cimg cl sl ls i' A2 = Inr (j, A')"
    by (rule walk_layers_Cons_Inr)
  show ?case
  proof (cases "n = ''conv_2''")
    case True
    with name_layer_Inr[OF nl] have "str_nat i' = ''2''" by auto
    moreover from True assms(1) s obtain r where
      "model A2 = add_module (''style_loss_'' @ str_nat i') (StyleLoss r) (model A1)"
      using add_style_loss_Inr[of B simg i' A1 A2] by auto
    ultimately have "(''style_loss_2'', StyleLoss r) \<in> set (model A2)"
      using add_module_mem[of "''style_loss_2''" "StyleLoss r" "model A1"] by simp
    then have "\<exists>x. (''style_loss_2'', x) \<in> set (model A2) \<and> is_loss_module x"
      by (intro exI[of _ "StyleLoss r"]) simp
    then show ?thesis using w by (rule walk_layers_style_key_kept)
  next
    case False
    with Cons.prems(1) nl have "''conv_2'' \<in> set (layer_names i' ls)" by simp
    then show ?thesis using w by (rule Cons.IH)
  qed
qed

lemma walk_layers_style_key_absent:
  assumes "''style_loss_2'' \<notin> fst ` set (model A)"
    and "''conv_2'' \<notin> set sl" "''relu_2'' \<notin> set sl" "''pool_2'' \<notin> set sl" "''bn_2'' \<notin> set sl"
    and "walk_layers B simg cimg cl sl ls i A = Inr (j, A')"
  shows "''style_loss_2'' \<notin> fst ` set (model A')"
proof (rule walk_layers_invariant[where
      P = "\<lambda>m. ''style_loss_2'' \<notin> fst ` set m", OF _ _ _ assms(1,6)])
  fix m :: sequential and i l i' n x
  assume "''style_loss_2'' \<notin> fst ` set m" and "name_layer i l = Inr (i', n, x)"
  then show "''style_loss_2'' \<notin> fst ` set (add_module n x m)"
    using name_layer_not_tap_name(1)[of i l i' n x]
    by (auto simp: add_module_keys is_tap_name_def)
next
  fix m :: sequential and i' r
  assume "''style_loss_2'' \<notin> fst ` set m"
  then show "''style_loss_2'' \<notin> fst ` set (add_module (''content_loss_'' @ str_nat i') (ContentLoss r) m)"
    by (simp add: add_module_keys)
next
  fix m :: sequential and i l i' n x r
  assume "''style_loss_2'' \<notin> fst ` set m" and nl: "name_layer i l = Inr (i', n, x)" and "n \<in> set sl"
  with assms(2-5) name_layer_Inr[OF nl] have "str_nat i' \<noteq> ''2''" by auto
  with \<open>''style_loss_2'' \<notin> fst ` set m\<close>
  show "''style_loss_2'' \<notin> fst ` set (add_module (''style_loss_'' @ str_nat i') (StyleLoss r) m)"
    by (simp add: add_module_keys)
qed

text \<open>
  Claim C10, as amended. Called without tap arguments, \<open>run_style_transfer\<close> assembles
  its pipeline with content tap \<open>conv_5\<close> and style taps \<open>conv_1\<close>, \<open>conv_3\<close>,
  \<open>conv_4\<close>, while the assembler's own defaults are \<open>conv_5\<close> and \<open>conv_1\<close>,
  \<open>conv_2\<close>, \<open>conv_3\<close>, \<open>conv_4\<close>. When the network has a second convolution
  (the name \<open>conv_2\<close> occurs), the two pipelines differ: only the assembler's default
  has a stage \<open>style_loss_2\<close>. When it has none, the two calls give the same result.
\<close>

theorem default_taps_of_the_entry_points:
  "run_model B cnn mean std cimg simg None None
     = get_style_model_and_losses B cnn mean std simg cimg
         (Some [''conv_5'']) (Some [''conv_1'', ''conv_3'', ''conv_4''])
   \<and> get_style_model_and_losses B cnn mean std simg cimg None None
     = get_style_model_and_losses B cnn mean std simg cimg
         (Some [''conv_5'']) (Some [''conv_1'', ''conv_2'', ''conv_3'', ''conv_4''])
   \<and> (''conv_2'' \<in> set (layer_names 0 cnn) \<longrightarrow>
        (\<forall>A1 A2. run_model B cnn mean std cimg simg None None = Inr A1
            \<and> get_style_model_and_losses B cnn mean std simg cimg None None = Inr A2 \<longrightarrow>
          ''style_loss_2'' \<in> fst ` set (model A2) \<and> ''style_loss_2'' \<notin> fst ` set (model A1)
          \<and> model A1 \<noteq> model A2))
   \<and> (''conv_2'' \<notin> set (layer_names 0 cnn) \<longrightarrow>
        run_model B cnn mean std cimg simg None None
          = get_style_model_and_losses B cnn mean std simg cimg None None)"
proof (intro conjI impI allI)
  show r: "run_model B cnn mean std cimg simg None None
     = get_style_model_and_losses B cnn mean std simg cimg
         (Some [''conv_5'']) (Some [''conv_1'', ''conv_3'', ''conv_4''])"
    by (simp add: run_model_def arg_or_default_def run_default_content_layers_def
        run_default_style_layers_def)
  show g: "get_style_model_and_losses B cnn mean std simg cimg None None
     = get_style_model_and_losses B cnn mean std simg cimg
         (Some [''conv_5'']) (Some [''conv_1'', ''conv_2'', ''conv_3'', ''conv_4''])"
    by (simp add: get_style_model_and_losses_def arg_or_default_def default_content_layers_def
        default_style_layers_def)
  {
    assume "''conv_2'' \<notin> set (layer_names 0 cnn)"
    then have "get_style_model_and_losses B cnn mean std simg cimg
         (Some [''conv_5'']) (Some [''conv_1'', ''conv_3'', ''conv_4''])
      = get_style_model_and_losses B cnn mean std simg cimg
         (Some [''conv_5'']) (Some [''conv_1'', ''conv_2'', ''conv_3'', ''conv_4''])"
      by (intro get_style_model_and_losses_cong) (auto simp: arg_or_default_def)
    with r g show "run_model B cnn mean std cimg simg None None
          = get_style_model_and_losses B cnn mean std simg cimg None None"
      by simp
  }
  fix A1 A2
  let ?I = "\<lparr>model = [(''0'', Normalization_init mean std)], style_losses = [], content_losses = [],
        store = []\<rparr>"
  assume c2: "''conv_2'' \<in> set (layer_names 0 cnn)"
    and both: "run_model B cnn mean std cimg simg None None = Inr A1
            \<and> get_style_model_and_losses B cnn mean std simg cimg None None = Inr A2"
  from both r have "get_style_model_and_losses B cnn mean std simg cimg
         (Some [''conv_5'']) (Some [''conv_1'', ''conv_3'', ''conv_4'']) = Inr A1" by simp
  then obtain j1 B1 where
    "walk_layers B simg cimg (arg_or_default default_content_layers (Some [''conv_5'']))
       (arg_or_default default_style_layers (Some [''conv_1'', ''conv_3'', ''conv_4''])) cnn 0 ?I
     = Inr (j1, B1)"
    and A1: "A1 = B1\<lparr>model := take (trim_index j1 (model B1) + 1) (model B1)\<rparr>"
    by (rule get_style_model_and_losses_Inr)
  then have w1: "walk_layers B simg cimg [''conv_5''] [''conv_1'', ''conv_3'', ''conv_4''] cnn 0 ?I
      = Inr (j1, B1)"
    by (simp add: arg_or_default_def)
  from both g have "get_style_model_and_losses B cnn mean std simg cimg
         (Some [''conv_5'']) (Some [''conv_1'', ''conv_2'', ''conv_3'', ''conv_4'']) = Inr A2" by simp
  then obtain j2 B2 where
    "walk_layers B simg cimg (arg_or_default default_content_layers (Some [''conv_5'']))
       (arg_or_default default_style_layers (Some [''conv_1'', ''conv_2'', ''conv_3'', ''conv_4''])) cnn 0 ?I
     = Inr (j2, B2)"
    and A2: "A2 = B2\<lparr>model := take (trim_index j2 (model B2) + 1) (model B2)\<rparr>"
    by (rule get_style_model_and_losses_Inr)
  then have w2: "walk_layers B simg cimg [''conv_5''] [''conv_1'', ''conv_2'', ''conv_3'', ''conv_4''] cnn 0 ?I
      = Inr (j2, B2)"
    by (simp add: arg_or_default_def)
  have "''style_loss_2'' \<notin> fst ` set (model B1)"
    by (rule walk_layers_style_key_absent[OF _ _ _ _ _ w1]) (simp_all add: Normalization_init_def)
  then show n1: "''style_loss_2'' \<notin> fst ` set (model A1)"
    using A1 by (auto dest!: in_set_takeD)
  have "\<exists>x. (''style_loss_2'', x) \<in> set (model B2) \<and> is_loss_module x"
    by (rule walk_layers_style_key_present[OF _ c2 w2]) simp
  then obtain x where "(''style_loss_2'', x) \<in> set (model B2)" and "is_loss_module x" by blast
  then have "(''style_loss_2'', x) \<in> set (model A2)"
    using trim_keeps_taps[of "''style_loss_2''" x "model B2" j2] A2 by simp
  then show n2: "''style_loss_2'' \<in> fst ` set (model A2)"
    by (rule image_eqI[rotated]) simp
  from n1 n2 show "model A1 \<noteq> model A2" by auto
qed

theorem default_taps_of_the_entry_points_witness:
  "run_model example_backend [Conv2d 0, ReLU True, Conv2d 1, ReLU True]
       (one_entry (Fin 0)) (one_entry (Fin 1))
       (image_2x2 (Fin 1) (Fin 1) (Fin 0) (Fin 0)) (image_2x2 (Fin 1) (Fin 0) (Fin 0) (Fin 1))
       None None
     = Inr \<lparr>model = [(''0'', Normalization \<lparr>shape = [1, 1, 1], data = [Fin 0]\<rparr>
                             \<lparr>shape = [1, 1, 1], data = [Fin 1]\<rparr>),
                      (''conv_1'', Conv2d 0), (''style_loss_1'', StyleLoss 0)],
             style_losses = [0], content_losses = [],
             store = [\<lparr>target = \<lparr>shape = [1, 1], data = [Fin (1 / 2)]\<rparr>, loss = None\<rparr>]\<rparr>
   \<and> get_style_model_and_losses example_backend [Conv2d 0, ReLU True, Conv2d 1, ReLU True]
       (one_entry (Fin 0)) (one_entry (Fin 1))
       (image_2x2 (Fin 1) (Fin 0) (Fin 0) (Fin 1)) (image_2x2 (Fin 1) (Fin 1) (Fin 0) (Fin 0))
       None None
     = Inr \<lparr>model = [(''0'', Normalization \<lparr>shape = [1, 1, 1], data = [Fin 0]\<rparr>
                             \<lparr>shape = [1, 1, 1], data = [Fin 1]\<rparr>),
                      (''conv_1'', Conv2d 0), (''style_loss_1'', StyleLoss 0),
                      (''relu_1'', ReLU False), (''conv_2'', Conv2d 1),
                      (''style_loss_2'', StyleLoss 1)],
             style_losses = [0, 1], content_losses = [],
             store = [\<lparr>target = \<lparr>shape = [1, 1], data = [Fin (1 / 2)]\<rparr>, loss = Some (Fin 0)\<rparr>,
                      \<lparr>target = \<lparr>shape = [1, 1], data = [Fin (1 / 2)]\<rparr>, loss = None\<rparr>]\<rparr>
   \<and> [(''0'', Normalization \<lparr>shape = [1, 1, 1], data = [Fin 0]\<rparr>
                             \<lparr>shape = [1, 1, 1], data = [Fin 1]\<rparr>),
                      (''conv_1'', Conv2d 0), (''style_loss_1'', StyleLoss 0)]
     \<noteq> [(''0'', Normalization \<lparr>shape = [1, 1, 1], data = [Fin 0]\<rparr>
                             \<lparr>shape = [1, 1, 1], data = [Fin 1]\<rparr>),
                      (''conv_1'', Conv2d 0), (''style_loss_1'', StyleLoss 0),
                      (''relu_1'', ReLU False), (''conv_2'', Conv2d 1),
                      (''style_loss_2'', StyleLoss 1)]"
proof -
  let ?A1 = "\<lparr>model = [(''0'', Normalization \<lparr>shape = [1, 1, 1], data = [Fin 0]\<rparr>
                             \<lparr>shape = [1, 1, 1], data = [Fin 1]\<rparr>),
                      (''conv_1'', Conv2d 0), (''style_loss_1'', StyleLoss 0)],
             style_losses = [0], content_losses = [],
             store = [\<lparr>target = \<lparr>shape = [1, 1], data = [Fin (1 / 2)]\<rparr>, loss = None\<rparr>]\<rparr>"
  let ?A2 = "\<lparr>model = [(''0'', Normalization \<lparr>shape = [1, 1, 1], data = [Fin 0]\<rparr>
                             \<lparr>shape = [1, 1, 1], data = [Fin 1]\<rparr>),
                      (''conv_1'', Conv2d 0), (''style_loss_1'', StyleLoss 0),
                      (''relu_1'', ReLU False), (''conv_2'', Conv2d 1),
                      (''style_loss_2'', StyleLoss 1)],
             style_losses = [0, 1], content_losses = [],
             store = [\<lparr>target = \<lparr>shape = [1, 1], data = [Fin (1 / 2)]\<rparr>, loss = Some (Fin 0)\<rparr>,
                      \<lparr>target = \<lparr>shape = [1, 1], data = [Fin (1 / 2)]\<rparr>, loss = None\<rparr>]\<rparr>"
  have r: "run_model example_backend [Conv2d 0, ReLU True, Conv2d 1, ReLU True]
       (one_entry (Fin 0)) (one_entry (Fin 1))
       (image_2x2 (Fin 1) (Fin 1) (Fin 0) (Fin 0)) (image_2x2 (Fin 1) (Fin 0) (Fin 0) (Fin 1))
       None None = Inr ?A1"
    by code_simp
  have g: "get_style_model_and_losses example_backend [Conv2d 0, ReLU True, Conv2d 1, ReLU True]
       (one_entry (Fin 0)) (one_entry (Fin 1))
       (image_2x2 (Fin 1) (Fin 0) (Fin 0) (Fin 1)) (image_2x2 (Fin 1) (Fin 1) (Fin 0) (Fin 0))
       None None = Inr ?A2"
    by code_simp
  have c: "''conv_2'' \<in> set (layer_names 0 [Conv2d 0, ReLU True, Conv2d 1, ReLU True])"
    by code_simp
  from default_taps_of_the_entry_points[of example_backend "[Conv2d 0, ReLU True, Conv2d 1, ReLU True]"
      "one_entry (Fin 0)" "one_entry (Fin 1)"
      "image_2x2 (Fin 1) (Fin 1) (Fin 0) (Fin 0)" "image_2x2 (Fin 1) (Fin 0) (Fin 0) (Fin 1)"] c r g
  have "model ?A1 \<noteq> model ?A2" by blast
  then have "[(''0'', Normalization \<lparr>shape = [1, 1, 1], data = [Fin 0]\<rparr>
                             \<lparr>shape = [1, 1, 1], data = [Fin 1]\<rparr>),
                      (''conv_1'', Conv2d 0), (''style_loss_1'', StyleLoss 0)]
     \<noteq> [(''0'', Normalization \<lparr>shape = [1, 1, 1], data = [Fin 0]\<rparr>
                             \<lparr>shape = [1, 1, 1], data = [Fin 1]\<rparr>),
                      (''conv_1'', Conv2d 0), (''style_loss_1'', StyleLoss 0),
                      (''relu_1'', ReLU False), (''conv_2'', Conv2d 1),
                      (''style_loss_2'', StyleLoss 1)]"
    by simp
  with r g show ?thesis by blast
qed

text \<open>
  The claim as stated, that the two entry points build different pipelines by default,
  fails on a network with a single convolution: both build the same pipeline.
\<close>

theorem same_default_pipeline_counterexample:
  "run_model example_backend [Conv2d 0, ReLU True]
       (one_entry (Fin 0)) (one_entry (Fin 1))
       (image_2x2 (Fin 1) (Fin 1) (Fin 0) (Fin 0)) (image_2x2 (Fin 1) (Fin 0) (Fin 0) (Fin 1))
       None None
     = Inr \<lparr>model = [(''0'', Normalization \<lparr>shape = [1, 1, 1], data = [Fin 0]\<rparr>
                             \<lparr>shape = [1, 1, 1], data = [Fin 1]\<rparr>),
                      (''conv_1'', Conv2d 0), (''style_loss_1'', StyleLoss 0)],
             style_losses = [0], content_losses = [],
             store = [\<lparr>target = \<lparr>shape = [1, 1], data = [Fin (1 / 2)]\<rparr>, loss = None\<rparr>]\<rparr>
   \<and> get_style_model_and_losses example_backend [Conv2d 0, ReLU True]
       (one_entry (Fin 0)) (one_entry (Fin 1))
       (image_2x2 (Fin 1) (Fin 0) (Fin 0) (Fin 1)) (image_2x2 (Fin 1) (Fin 1) (Fin 0) (Fin 0))
       None None
     = Inr \<lparr>model = [(''0'', Normalization \<lparr>shape = [1, 1, 1], data = [Fin 0]\<rparr>
                             \<lparr>shape = [1, 1, 1], data = [Fin 1]\<rparr>),
                      (''conv_1'', Conv2d 0), (''style_loss_1'', StyleLoss 0)],
             style_losses = [0], content_losses = [],
             store = [\<lparr>target = \<lparr>shape = [1, 1], data = [Fin (1 / 2)]\<rparr>, loss = None\<rparr>]\<rparr>"
  by code_simp


end
